theory Spec2Isabelle
  imports Main
begin

section \<open>Strings\<close>

text \<open>
  A JavaScript string is a sequence of UTF-16 code units. A code unit is an integer
  here; the ASCII part of a literal is written with \<open>lit\<close>, the other code units of the
  source's literals are written out as numbers.
\<close>

type_synonym cu = int
type_synonym jstring = "cu list"

definition lit :: "string \<Rightarrow> jstring" where
  "lit s = map of_char s"

text \<open>Truthiness of a string value that may be \<open>null\<close>/\<open>undefined\<close> (\<open>None\<close>):
  only a non-empty string is truthy.\<close>

fun truthy :: "jstring option \<Rightarrow> bool" where
  "truthy None = False"
| "truthy (Some s) = (s \<noteq> [])"

text \<open>\<open>x || ""\<close> on such a value.\<close>

fun or_empty :: "jstring option \<Rightarrow> jstring" where
  "or_empty None = []"
| "or_empty (Some s) = s"

text \<open>
  Numbers. A JavaScript number is a double. An integer of magnitude below \<open>2^53\<close>
  (9007199254740992) is a double exactly, and a template literal prints it in plain
  decimal: \<open>decimal\<close> for a natural number, \<open>show_int\<close> with a sign. For a digit string of a
  larger value \<open>parseInt\<close> gives a rounded double or \<open>Infinity\<close>, and the template literal
  prints what \<open>Number::toString\<close> gives for that, with rounded digits or in exponent form.
  That text is not computed here: it is the parameter \<open>big\<close>, a function from the decimal
  digits of the integer to the text printed for its double.
\<close>

function decimal :: "int \<Rightarrow> jstring" where
  "decimal n = (if n < 10 then [48 + n] else decimal (n div 10) @ [48 + n mod 10])"
  by pat_completeness auto
termination
  by (relation "measure nat") auto

declare decimal.simps [simp del]

definition show_int :: "int \<Rightarrow> jstring" where
  "show_int i = (if i < 0 then 45 # decimal (- i) else decimal i)"

text \<open>The integer that a string of decimal digits denotes.\<close>

definition digits_value :: "jstring \<Rightarrow> int" where
  "digits_value ds = foldl (\<lambda>a d. 10 * a + (d - 48)) 0 ds"

text \<open>The number that \<open>parseInt(ds, 10)\<close> gives for a capture of \<open>\d+\<close>: the value of the
  digits when that is below \<open>2^53\<close>, else a double that is kept here as the digits it was
  rounded from. It is at least \<open>2^53\<close>, so it is not \<open>0\<close>.\<close>

datatype jsnum = Exact int | Rounded jstring

definition parseInt10 :: "jstring \<Rightarrow> jsnum" where
  "parseInt10 ds =
     (if digits_value ds < 9007199254740992 then Exact (digits_value ds) else Rounded ds)"

text \<open>A number in a template literal.\<close>

fun show_num :: "(jstring \<Rightarrow> jstring) \<Rightarrow> jsnum \<Rightarrow> jstring" where
  "show_num big (Exact n) = decimal n"
| "show_num big (Rounded ds) = big ds"

text \<open>\<open>lines.join("\n")\<close>.\<close>

fun join_nl :: "jstring list \<Rightarrow> jstring" where
  "join_nl [] = []"
| "join_nl [l] = l"
| "join_nl (l # ls) = l @ [10] @ join_nl ls"

section \<open>Settings\<close>

record RcloneRemote =
  name :: jstring
  path :: jstring
  enable :: bool

text \<open>A property of an object: missing, \<open>null\<close>, or a value.\<close>

datatype 'a jsfield = Absent | Null | Val 'a

text \<open>The settings object. \<open>Object.assign\<close> copies whatever the stored data holds, so
  the two fields of the interface may be \<open>null\<close> at run time (\<open>None\<close>); the code tests
  for that with \<open>!rclonePath\<close> and \<open>this.settings.remotes || []\<close>. It also copies the
  properties \<open>remoteName\<close> and \<open>remotePath\<close> of the older version when the stored data
  has them: the interface does not declare them, the object holds them, and
  \<open>saveData(this.settings)\<close> writes them back.\<close>

record ObsidianRcloneBridgeSettings =
  rclonePath :: "jstring option"
  remotes :: "RcloneRemote list option"
  remoteName :: "jstring jsfield"
  remotePath :: "jstring jsfield"

definition DEFAULT_SETTINGS :: ObsidianRcloneBridgeSettings where
  "DEFAULT_SETTINGS = \<lparr> rclonePath = Some [], remotes = Some [],
                         remoteName = Absent, remotePath = Absent \<rparr>"

text \<open>What \<open>loadData()\<close> returns when a data file exists: the current fields and the
  single-target fields of the older version.\<close>

record StoredData =
  d_rclonePath :: "jstring jsfield"
  d_remotes :: "RcloneRemote list jsfield"
  d_remoteName :: "jstring jsfield"
  d_remotePath :: "jstring jsfield"

text \<open>\<open>Object.assign({}, DEFAULT, data)\<close> for one property: a property the data has
  (even with value \<open>null\<close>) replaces the default.\<close>

fun assign_field :: "'a option \<Rightarrow> 'a jsfield \<Rightarrow> 'a option" where
  "assign_field dflt Absent = dflt"
| "assign_field dflt Null = None"
| "assign_field dflt (Val v) = Some v"

text \<open>Reading a property through \<open>(data as any)?.remoteName\<close>: \<open>undefined\<close> and \<open>null\<close>
  are both falsy and both replaced by \<open>""\<close>, so they are one value here.\<close>

fun read_field :: "'a jsfield \<Rightarrow> 'a option" where
  "read_field Absent = None"
| "read_field Null = None"
| "read_field (Val v) = Some v"

text \<open>The settings computed by \<open>loadSettings\<close> from what \<open>loadData()\<close> returns; \<open>data\<close> is
  \<open>None\<close> when that is \<open>null\<close>.\<close>

definition load_from :: "StoredData option \<Rightarrow> ObsidianRcloneBridgeSettings" where
  "load_from data =
    (let settings =
           (case data of
              None \<Rightarrow> DEFAULT_SETTINGS
            | Some d \<Rightarrow>
                \<lparr> rclonePath = assign_field (rclonePath DEFAULT_SETTINGS) (d_rclonePath d),
                  remotes = assign_field (remotes DEFAULT_SETTINGS) (d_remotes d),
                  remoteName = d_remoteName d,
                  remotePath = d_remotePath d \<rparr>);
         legacyRemoteName = (case data of None \<Rightarrow> None | Some d \<Rightarrow> read_field (d_remoteName d));
         legacyRemotePath = (case data of None \<Rightarrow> None | Some d \<Rightarrow> read_field (d_remotePath d))
     in if (case remotes settings of None \<Rightarrow> True | Some rs \<Rightarrow> length rs = 0)
           \<and> (truthy legacyRemoteName \<or> truthy legacyRemotePath)
        then settings \<lparr> remotes :=
               Some [\<lparr> name = or_empty legacyRemoteName,
                       path = or_empty legacyRemotePath,
                       enable = True \<rparr>] \<rparr>
        else settings)"

section \<open>Remote address\<close>

text \<open>The target address computed in \<open>runRcloneSync\<close>: the path when it holds a colon
  (code unit 58), else name, colon, path when the name is non-empty, else \<open>""\<close>.\<close>

definition remoteTarget :: "RcloneRemote \<Rightarrow> jstring" where
  "remoteTarget r =
    (if 58 \<in> set (path r) then path r
     else if name r \<noteq> [] then name r @ [58] @ path r
     else [])"

section \<open>Regular expressions\<close>

text \<open>
  The four patterns of the output parser use literal characters, the classes \<open>\s\<close>,
  \<open>\d\<close>, \<open>\w\<close>, \<open>[\d.]\<close> and \<open>.\<close>, the greedy quantifiers \<open>*\<close>, \<open>+\<close>, \<open>?\<close> on one
  character or class, sequence, alternation and capture groups, all under the flag \<open>i\<close>.
  The matcher below is the backtracking matcher of ECMAScript for this fragment: it
  returns every way a pattern matches at the start of the input, in the order in which
  backtracking tries them, and the first one is the match.
\<close>

datatype cls =
    CI cu        \<comment> \<open>an ASCII pattern character, compared ignoring ASCII case\<close>
  | Digit        \<comment> \<open>\<open>\d\<close>\<close>
  | DigitDot     \<comment> \<open>\<open>[\d.]\<close>\<close>
  | Space        \<comment> \<open>\<open>\s\<close>\<close>
  | Word         \<comment> \<open>\<open>\w\<close>\<close>
  | AnyChar      \<comment> \<open>\<open>.\<close>\<close>

definition is_digit :: "cu \<Rightarrow> bool" where
  "is_digit c = (48 \<le> c \<and> c \<le> 57)"

definition ascii_upper :: "cu \<Rightarrow> cu" where
  "ascii_upper c = (if 97 \<le> c \<and> c \<le> 122 then c - 32 else c)"

text \<open>White space and line terminators of ECMAScript.\<close>

definition is_space :: "cu \<Rightarrow> bool" where
  "is_space c = (c \<in> {9, 10, 11, 12, 13, 32, 160, 0x1680, 0x2028, 0x2029, 0x202F, 0x205F,
                      0x3000, 0xFEFF} \<or> (0x2000 \<le> c \<and> c \<le> 0x200A))"

definition is_word :: "cu \<Rightarrow> bool" where
  "is_word c = ((65 \<le> c \<and> c \<le> 90) \<or> (97 \<le> c \<and> c \<le> 122) \<or> is_digit c \<or> c = 95)"

definition is_line_terminator :: "cu \<Rightarrow> bool" where
  "is_line_terminator c = (c \<in> {10, 13, 0x2028, 0x2029})"

fun cls_ok :: "cls \<Rightarrow> cu \<Rightarrow> bool" where
  "cls_ok (CI p) c = (ascii_upper c = ascii_upper p)"
| "cls_ok Digit c = is_digit c"
| "cls_ok DigitDot c = (is_digit c \<or> c = 46)"
| "cls_ok Space c = is_space c"
| "cls_ok Word c = is_word c"
| "cls_ok AnyChar c = (\<not> is_line_terminator c)"

datatype re =
    Eps
  | Ch cls
  | Star cls
  | Plus cls
  | Opt cls
  | Seq re re
  | Alt re re
  | Grp nat re

text \<open>Captures: the group number with the captured text, the latest binding first.\<close>

type_synonym caps = "(nat \<times> jstring) list"

text \<open>The inputs left after a greedy \<open>c*\<close>, longest match first.\<close>

fun star_rests :: "cls \<Rightarrow> jstring \<Rightarrow> jstring list" where
  "star_rests c [] = [[]]"
| "star_rests c (x # xs) = (if cls_ok c x then star_rests c xs @ [x # xs] else [x # xs])"

fun rmatch :: "re \<Rightarrow> jstring \<Rightarrow> caps \<Rightarrow> (jstring \<times> caps) list" where
  "rmatch Eps s cs = [(s, cs)]"
| "rmatch (Ch c) s cs =
     (case s of [] \<Rightarrow> [] | x # xs \<Rightarrow> if cls_ok c x then [(xs, cs)] else [])"
| "rmatch (Star c) s cs = map (\<lambda>t. (t, cs)) (star_rests c s)"
| "rmatch (Plus c) s cs =
     (case s of [] \<Rightarrow> []
      | x # xs \<Rightarrow> if cls_ok c x then map (\<lambda>t. (t, cs)) (star_rests c xs) else [])"
| "rmatch (Opt c) s cs =
     (case s of [] \<Rightarrow> [([], cs)]
      | x # xs \<Rightarrow> if cls_ok c x then [(xs, cs), (s, cs)] else [(s, cs)])"
| "rmatch (Seq a b) s cs = concat (map (\<lambda>(t, cs'). rmatch b t cs') (rmatch a s cs))"
| "rmatch (Alt a b) s cs = rmatch a s cs @ rmatch b s cs"
| "rmatch (Grp i a) s cs =
     map (\<lambda>(t, cs'). (t, (i, take (length s - length t) s) # cs')) (rmatch a s cs)"

text \<open>\<open>String.prototype.match\<close> with a pattern that has no flag \<open>g\<close>: the first match at
  the leftmost start position, as its captures; \<open>None\<close> is \<open>null\<close>.\<close>

fun rsearch :: "re \<Rightarrow> jstring \<Rightarrow> caps option" where
  "rsearch r [] = (case rmatch r [] [] of [] \<Rightarrow> None | (t, cs) # _ \<Rightarrow> Some cs)"
| "rsearch r (x # xs) =
     (case rmatch r (x # xs) [] of [] \<Rightarrow> rsearch r xs | (t, cs) # _ \<Rightarrow> Some cs)"

text \<open>\<open>RegExp.prototype.test\<close>.\<close>

definition rtest :: "re \<Rightarrow> jstring \<Rightarrow> bool" where
  "rtest r s = (rsearch r s \<noteq> None)"

text \<open>\<open>m[i]\<close> on a match.\<close>

definition group :: "caps \<Rightarrow> nat \<Rightarrow> jstring option" where
  "group cs i = map_of cs i"

fun seqs :: "re list \<Rightarrow> re" where
  "seqs [] = Eps"
| "seqs [r] = r"
| "seqs (r # rs) = Seq r (seqs rs)"

text \<open>A run of single characters or classes, and the characters of a literal.\<close>

definition pat :: "cls list \<Rightarrow> re" where
  "pat ks = seqs (map Ch ks)"

definition ci :: "string \<Rightarrow> cls list" where
  "ci s = map (\<lambda>c. CI (of_char c)) s"

text \<open>\<open>[\d.]+\s*\w*i?B\<close>, the amount with its unit.\<close>

definition amount :: re where
  "amount = seqs [Plus DigitDot, Star Space, Star Word, Opt (CI 105), Ch (CI 66)]"

text \<open>\<open>/Transferred:\s*([\d.]+\s*\w*i?B)\s*\/\s*([\d.]+\s*\w*i?B)/i\<close>\<close>

definition sizeLineRe :: re where
  "sizeLineRe = seqs [pat (ci ''Transferred:''), Star Space, Grp 1 amount, Star Space,
                      Ch (CI 47), Star Space, Grp 2 amount]"

text \<open>\<open>/Transferred:\s*(\d+)\s*\/\s*(\d+)/i\<close>\<close>

definition countLineRe :: re where
  "countLineRe = seqs [pat (ci ''Transferred:''), Star Space, Grp 1 (Plus Digit), Star Space,
                       Ch (CI 47), Star Space, Grp 2 (Plus Digit)]"

text \<open>\<open>/Checks:\s*(\d+)\s*\/\s*(\d+)/i\<close>\<close>

definition checksLineRe :: re where
  "checksLineRe = seqs [pat (ci ''Checks:''), Star Space, Grp 1 (Plus Digit), Star Space,
                        Ch (CI 47), Star Space, Grp 2 (Plus Digit)]"

text \<open>The three phrases of \<open>/No changes|up.to.date|Nothing to do/i\<close>.\<close>

definition phrase_no_changes :: "cls list" where
  "phrase_no_changes = ci ''No changes''"

definition phrase_up_to_date :: "cls list" where
  "phrase_up_to_date = ci ''up'' @ [AnyChar] @ ci ''to'' @ [AnyChar] @ ci ''date''"

definition phrase_nothing_to_do :: "cls list" where
  "phrase_nothing_to_do = ci ''Nothing to do''"

definition noChangesRe :: re where
  "noChangesRe = Alt (pat phrase_no_changes) (Alt (pat phrase_up_to_date) (pat phrase_nothing_to_do))"

section \<open>Output parser\<close>

text \<open>The summary computed in the \<open>close\<close> handler of \<open>runRcloneSync\<close> from the combined
  output and the elapsed time, which arrives formatted (\<open>toFixed(1)\<close>). The parameter
  \<open>big\<close> prints the numbers of \<open>2^53\<close> and more.\<close>

definition msg_uptodate :: jstring where
  "msg_uptodate = [0x5df2, 0x662f, 0x6700, 0x65b0] @ lit '' ('' @ [0x8017, 0x65f6] @ lit '' ''"

definition msg_elapsed :: jstring where
  "msg_elapsed = lit '' ('' @ [0x8017, 0x65f6] @ lit '' ''"

definition msg_done :: jstring where
  "msg_done = [0x5b8c, 0x6210] @ lit '' ('' @ [0x8017, 0x65f6] @ lit '' ''"

definition transferredSize :: "jstring \<Rightarrow> jstring option" where
  "transferredSize combined =
     (case rsearch sizeLineRe combined of None \<Rightarrow> None | Some m \<Rightarrow> group m 1)"

definition transferredFiles :: "jstring \<Rightarrow> jsnum option" where
  "transferredFiles combined =
     (case rsearch countLineRe combined of None \<Rightarrow> None
      | Some m \<Rightarrow> map_option parseInt10 (group m 1))"

definition checksTotal :: "jstring \<Rightarrow> jsnum option" where
  "checksTotal combined =
     (case rsearch checksLineRe combined of None \<Rightarrow> None
      | Some m \<Rightarrow> map_option parseInt10 (group m 2))"

definition checksDone :: "jstring \<Rightarrow> jsnum option" where
  "checksDone combined =
     (case rsearch checksLineRe combined of None \<Rightarrow> None
      | Some m \<Rightarrow> map_option parseInt10 (group m 1))"

definition noChanges :: "jstring \<Rightarrow> bool" where
  "noChanges combined =
     (transferredFiles combined = Some (Exact 0) \<or> rtest noChangesRe combined)"

text \<open>Printing a number that may be \<open>undefined\<close> in a template literal.\<close>

fun show_opt :: "(jstring \<Rightarrow> jstring) \<Rightarrow> jsnum option \<Rightarrow> jstring" where
  "show_opt big None = lit ''undefined''"
| "show_opt big (Some n) = show_num big n"

definition filesPart :: "(jstring \<Rightarrow> jstring) \<Rightarrow> jstring \<Rightarrow> jstring" where
  "filesPart big combined =
     (case transferredFiles combined of
        None \<Rightarrow> []
      | Some n \<Rightarrow> show_num big n @ lit '' files'')"

definition checksPart :: "(jstring \<Rightarrow> jstring) \<Rightarrow> jstring \<Rightarrow> jstring" where
  "checksPart big combined =
     (if rsearch checksLineRe combined \<noteq> None
      then lit '', checks '' @ show_opt big (checksDone combined) @ lit ''/''
             @ show_opt big (checksTotal combined)
      else [])"

definition summary_of :: "(jstring \<Rightarrow> jstring) \<Rightarrow> jstring \<Rightarrow> jstring \<Rightarrow> jstring" where
  "summary_of big combined durationSec =
     (if noChanges combined then msg_uptodate @ durationSec @ lit ''s)''
      else
        case transferredSize combined of
          Some sz \<Rightarrow>
            if sz \<noteq> [] then
              (if filesPart big combined \<noteq> [] then filesPart big combined @ lit '', '' else [])
                @ sz @ msg_elapsed @ durationSec @ lit ''s''
                @ checksPart big combined @ lit '')''
            else msg_done @ durationSec @ lit ''s)''
        | None \<Rightarrow> msg_done @ durationSec @ lit ''s)'')"

text \<open>The no-changes marker in the words of the specification: one of the three phrases
  occurs somewhere in the text, letters compared without regard to case, each dot of the
  second phrase standing for one character that is no line terminator.\<close>

fun starts_with :: "cls list \<Rightarrow> jstring \<Rightarrow> bool" where
  "starts_with [] s = True"
| "starts_with (k # ks) [] = False"
| "starts_with (k # ks) (x # xs) = (cls_ok k x \<and> starts_with ks xs)"

fun occurs :: "cls list \<Rightarrow> jstring \<Rightarrow> bool" where
  "occurs ks [] = starts_with ks []"
| "occurs ks (x # xs) = (starts_with ks (x # xs) \<or> occurs ks xs)"

definition has_marker :: "jstring \<Rightarrow> bool" where
  "has_marker s = (occurs phrase_no_changes s \<or> occurs phrase_up_to_date s
                   \<or> occurs phrase_nothing_to_do s)"

section \<open>The plugin and its environment\<close>

text \<open>A thrown value. Every value thrown or rejected in this code is an \<open>Error\<close>
  object, so \<open>err instanceof Error ? err.message : String(err)\<close> is its message.\<close>

datatype js_error = Error (message: jstring)

text \<open>The arguments of one call of \<open>spawn\<close>.\<close>

record Cmd =
  exe :: jstring
  argv :: "jstring list"
  shell :: bool

text \<open>How a child process ends for the promise of \<open>runRcloneSync\<close>: an \<open>error\<close> event
  with the error's message, or a \<open>close\<close> event with the exit code (\<open>None\<close> is \<open>null\<close>),
  the text collected from stdout and from stderr, and the elapsed time as
  \<open>toFixed(1)\<close> prints it.\<close>

datatype proc_result =
    ErrorEvent jstring
  | CloseEvent "int option" jstring jstring jstring

text \<open>What happens outside the plugin, in order: a call of \<open>runRcloneSync\<close>, the start of
  a child process and its end.\<close>

datatype event = Invoke RcloneRemote | Spawn Cmd | Exit proc_result

text \<open>The host and the operating system: the vault's base path (\<open>None\<close> when the adapter
  has no \<open>getBasePath\<close>), the outcome of a child process given everything that happened
  before, the formatted duration of the whole batch, and the text that the engine prints
  for a number of \<open>2^53\<close> or more, given its decimal digits.\<close>

record env =
  getBasePath :: "jstring option"
  child :: "event list \<Rightarrow> Cmd \<Rightarrow> proc_result"
  batchDuration :: "event list \<Rightarrow> jstring"
  numberText :: "jstring \<Rightarrow> jstring"

text \<open>The plugin object, with the stored data behind \<open>loadData\<close>/\<open>saveData\<close>, the notices
  it has shown and the events so far. The status bar is \<open>None\<close> while \<open>this.statusBar\<close> is
  \<open>null\<close>, else its text. Console output is left out.\<close>

record Plugin =
  dataFile :: "StoredData option"
  settings :: ObsidianRcloneBridgeSettings
  statusBar :: "jstring option"
  isSyncing :: bool
  notices :: "jstring list"
  trace :: "event list"

record SyncResult =
  remote :: RcloneRemote
  success :: bool
  summary :: jstring

definition status_ready :: jstring where
  "status_ready = [0x5c31, 0x7eea]"

definition status_syncing :: jstring where
  "status_syncing = [0x6b63, 0x5728, 0x540c, 0x6b65] @ lit ''...''"

definition status_ok :: jstring where
  "status_ok = [0x540c, 0x6b65, 0x6210, 0x529f]"

definition status_failed :: jstring where
  "status_failed = [0x540c, 0x6b65, 0x5931, 0x8d25]"

definition msg_busy :: jstring where
  "msg_busy = [0x5df2, 0x6709, 0x540c, 0x6b65, 0x4efb, 0x52a1, 0x6b63, 0x5728, 0x8fdb, 0x884c,
               0xff0c, 0x8bf7, 0x7a0d, 0x5019] @ lit ''...''"

definition msg_none_enabled :: jstring where
  "msg_none_enabled = [0x8bf7, 0x5728, 0x8bbe, 0x7f6e, 0x4e2d, 0x81f3, 0x5c11, 0x542f, 0x7528,
                       0x4e00, 0x4e2a] @ lit '' Remote'' @ [0x3002]"

definition msg_no_rclone :: jstring where
  "msg_no_rclone = [0x8bf7, 0x5728, 0x8bbe, 0x7f6e, 0x4e2d, 0x586b, 0x5199] @ lit '' rclone ''
     @ [0x53ef, 0x6267, 0x884c, 0x6587, 0x4ef6, 0x7684, 0x7edd, 0x5bf9, 0x8def, 0x5f84, 0x3002]"

definition msg_no_vault :: jstring where
  "msg_no_vault = [0x65e0, 0x6cd5, 0x83b7, 0x53d6, 0x5f53, 0x524d] @ lit '' Vault ''
     @ [0x7684, 0x672c, 0x5730, 0x8def, 0x5f84, 0xff08, 0x4ec5, 0x684c, 0x9762, 0x7aef, 0x652f,
        0x6301, 0xff09, 0x3002]"

definition msg_no_remote :: jstring where
  "msg_no_remote = [0x8bf7, 0x5728, 0x8bbe, 0x7f6e, 0x4e2d, 0x586b, 0x5199] @ lit '' Remote ''
     @ [0x540d, 0x79f0, 0x4e0e, 0x8fdc, 0x7a0b, 0x8def, 0x5f84, 0x3002]"

definition msg_failed :: jstring where
  "msg_failed = [0x5931, 0x8d25] @ lit '': ''"

definition msg_sync_failed :: jstring where
  "msg_sync_failed = [0x540c, 0x6b65, 0x5931, 0x8d25] @ lit '': ''"

definition msg_sync_done :: jstring where
  "msg_sync_done = [0x540c, 0x6b65, 0x5b8c, 0x6210] @ lit '' (''"

definition msg_unnamed :: jstring where
  "msg_unnamed = lit ''('' @ [0x672a, 0x547d, 0x540d] @ lit '')''"

text \<open>The exit code in a template literal. The operating system reports codes of 32 bits
  at most; the case of a larger one only keeps the function faithful on all of its type.\<close>

fun show_code :: "(jstring \<Rightarrow> jstring) \<Rightarrow> int option \<Rightarrow> jstring" where
  "show_code big None = lit ''null''"
| "show_code big (Some i) =
     (if - 9007199254740992 < i \<and> i < 9007199254740992 then show_int i else big (show_int i))"

text \<open>The message of the error for an exit code other than 0.\<close>

definition msg_exit :: "(jstring \<Rightarrow> jstring) \<Rightarrow> int option \<Rightarrow> jstring \<Rightarrow> jstring \<Rightarrow> jstring" where
  "msg_exit big code out err =
     lit ''rclone '' @ [0x9000, 0x51fa, 0x7801] @ lit '' '' @ show_code big code @ [10]
       @ (if err \<noteq> [] then err else out)"

definition updateStatus :: "Plugin \<Rightarrow> jstring \<Rightarrow> Plugin" where
  "updateStatus p status =
     (case statusBar p of
        None \<Rightarrow> p
      | Some _ \<Rightarrow> p \<lparr> statusBar := Some (lit ''Rclone: '' @ status) \<rparr>)"

text \<open>\<open>new Notice(text)\<close>.\<close>

definition Notice :: "Plugin \<Rightarrow> jstring \<Rightarrow> Plugin" where
  "Notice p text = p \<lparr> notices := notices p @ [text] \<rparr>"

text \<open>\<open>loadSettings\<close> reads the stored data and assigns \<open>this.settings\<close>; it does not
  call \<open>saveData\<close>.\<close>

definition loadSettings :: "Plugin \<Rightarrow> Plugin" where
  "loadSettings p = p \<lparr> settings := load_from (dataFile p) \<rparr>"

text \<open>A property of the settings object as \<open>saveData\<close> stores it.\<close>

fun to_field :: "'a option \<Rightarrow> 'a jsfield" where
  "to_field None = Null"
| "to_field (Some v) = Val v"

text \<open>\<open>saveSettings\<close>: \<open>saveData(this.settings)\<close> stores the settings object with every
  property it holds.\<close>

definition saveSettings :: "Plugin \<Rightarrow> Plugin" where
  "saveSettings p =
     p \<lparr> dataFile := Some \<lparr> d_rclonePath = to_field (rclonePath (settings p)),
                              d_remotes = to_field (remotes (settings p)),
                              d_remoteName = remoteName (settings p),
                              d_remotePath = remotePath (settings p) \<rparr> \<rparr>"

text \<open>The trash button of the remote at \<open>index\<close> in the settings tab:
  \<open>remotes.splice(index, 1)\<close>, then \<open>saveSettings\<close>. The tab shows no button while
  \<open>remotes\<close> is \<open>null\<close>.\<close>

definition deleteRemote :: "nat \<Rightarrow> Plugin \<Rightarrow> Plugin" where
  "deleteRemote index p =
     (case remotes (settings p) of
        None \<Rightarrow> p
      | Some rs \<Rightarrow>
          saveSettings
            (p \<lparr> settings := (settings p) \<lparr> remotes := Some (take index rs @ drop (Suc index) rs) \<rparr> \<rparr>))"

section \<open>Target runner\<close>

text \<open>The argument array of \<open>runRcloneSync\<close>.\<close>

definition args :: "jstring \<Rightarrow> jstring \<Rightarrow> jstring list" where
  "args vaultPath target = [lit ''bisync'', vaultPath, target, lit ''--verbose'', lit ''--resync'']"

text \<open>What the promise settles to once the child has ended.\<close>

fun settle :: "(jstring \<Rightarrow> jstring) \<Rightarrow> proc_result \<Rightarrow> js_error + jstring" where
  "settle big (ErrorEvent m) = Inl (Error m)"
| "settle big (CloseEvent code out err durationSec) =
     (if code = Some 0 then Inr (summary_of big (out @ [10] @ err) durationSec)
      else Inl (Error (msg_exit big code out err)))"

text \<open>\<open>runRcloneSync\<close>: the three checks throw before anything is spawned; else the child
  is spawned and awaited. \<open>Inl\<close> is a rejected promise, \<open>Inr\<close> the summary.\<close>

definition runRcloneSync :: "env \<Rightarrow> Plugin \<Rightarrow> RcloneRemote \<Rightarrow> Plugin \<times> (js_error + jstring)" where
  "runRcloneSync e p r =
     (let p0 = p \<lparr> trace := trace p @ [Invoke r] \<rparr> in
      if \<not> truthy (rclonePath (settings p)) then (p0, Inl (Error msg_no_rclone))
      else if \<not> truthy (getBasePath e) then (p0, Inl (Error msg_no_vault))
      else if remoteTarget r = [] then (p0, Inl (Error msg_no_remote))
      else
        let cmd = \<lparr> exe = or_empty (rclonePath (settings p)),
                    argv = args (or_empty (getBasePath e)) (remoteTarget r),
                    shell = False \<rparr>;
            res = child e (trace p0) cmd
        in (p0 \<lparr> trace := trace p0 @ [Spawn cmd, Exit res] \<rparr>, settle (numberText e) res))"

section \<open>Orchestrator\<close>

text \<open>The entry pushed to \<open>results\<close> by the \<open>try\<close> and by the \<open>catch\<close> inside the loop.\<close>

fun to_result :: "RcloneRemote \<Rightarrow> js_error + jstring \<Rightarrow> SyncResult" where
  "to_result r (Inr s) = \<lparr> remote = r, success = True, summary = s \<rparr>"
| "to_result r (Inl err) = \<lparr> remote = r, success = False, summary = msg_failed @ message err \<rparr>"

text \<open>The \<open>for\<close> loop over the enabled remotes, with \<open>results\<close> as accumulator.\<close>

fun sync_loop :: "env \<Rightarrow> RcloneRemote list \<Rightarrow> Plugin \<times> SyncResult list
                   \<Rightarrow> Plugin \<times> SyncResult list" where
  "sync_loop e [] (p, results) = (p, results)"
| "sync_loop e (r # rs) (p, results) =
     (case runRcloneSync e p r of
        (p', out) \<Rightarrow> sync_loop e rs (p', results @ [to_result r out]))"

definition enabledRemotes :: "Plugin \<Rightarrow> RcloneRemote list" where
  "enabledRemotes p = filter enable (case remotes (settings p) of None \<Rightarrow> [] | Some rs \<Rightarrow> rs)"

definition result_line :: "SyncResult \<Rightarrow> jstring" where
  "result_line r =
     (if name (remote r) \<noteq> [] then name (remote r) else msg_unnamed) @ lit '': '' @ summary r"

text \<open>The notice after the loop.\<close>

definition report :: "jstring \<Rightarrow> SyncResult list \<Rightarrow> jstring" where
  "report durationSec results =
     join_nl ((msg_sync_done @ durationSec @ lit ''s)'') # map result_line results)"

text \<open>The \<open>try\<close> block of \<open>handleSync\<close>: \<open>Inl\<close> when it throws.\<close>

definition sync_body :: "env \<Rightarrow> Plugin \<Rightarrow> Plugin \<times> (js_error + unit)" where
  "sync_body e p =
     (if length (enabledRemotes p) = 0 then (p, Inl (Error msg_none_enabled))
      else
        case sync_loop e (enabledRemotes p) (p, []) of
          (p1, results) \<Rightarrow>
            let durationSec = batchDuration e (trace p1);
                allSuccess = list_all success results;
                p2 = updateStatus p1 (if allSuccess then status_ok else status_failed)
            in (Notice p2 (report durationSec results), Inr ()))"

text \<open>The guard, and the \<open>try\<close>/\<open>catch\<close>/\<open>finally\<close> of \<open>handleSync\<close> around a \<open>try\<close> block.\<close>

definition handleSync_frame :: "(Plugin \<Rightarrow> Plugin \<times> (js_error + unit)) \<Rightarrow> Plugin \<Rightarrow> Plugin" where
  "handleSync_frame body p =
     (if isSyncing p then Notice p msg_busy
      else
        let p1 = updateStatus (p \<lparr> isSyncing := True \<rparr>) status_syncing in
        case body p1 of
          (p2, res) \<Rightarrow>
            let p3 = (case res of
                        Inr _ \<Rightarrow> p2
                      | Inl err \<Rightarrow>
                          Notice (updateStatus p2 status_failed) (msg_sync_failed @ message err))
            in p3 \<lparr> isSyncing := False \<rparr>)"

definition handleSync :: "env \<Rightarrow> Plugin \<Rightarrow> Plugin" where
  "handleSync e p = handleSync_frame (sync_body e) p"

section \<open>Observations on a run\<close>

text \<open>The state in which the \<open>try\<close> block of \<open>handleSync\<close> starts when no run is in
  progress.\<close>

definition loop_start :: "Plugin \<Rightarrow> Plugin" where
  "loop_start p = updateStatus (p \<lparr> isSyncing := True \<rparr>) status_syncing"

text \<open>The \<open>results\<close> array at the end of the loop of such a run.\<close>

definition run_results :: "env \<Rightarrow> Plugin \<Rightarrow> SyncResult list" where
  "run_results e p = snd (sync_loop e (enabledRemotes p) (loop_start p, []))"

text \<open>The plugin at the end of that loop.\<close>

definition loop_end :: "env \<Rightarrow> Plugin \<Rightarrow> Plugin" where
  "loop_end e p = fst (sync_loop e (enabledRemotes p) (loop_start p, []))"

text \<open>The events that a step from \<open>p\<close> to \<open>q\<close> has added.\<close>

definition new_events :: "Plugin \<Rightarrow> Plugin \<Rightarrow> event list" where
  "new_events p q = drop (length (trace p)) (trace q)"

text \<open>The remotes the runner was called with, in order.\<close>

fun invoked :: "event list \<Rightarrow> RcloneRemote list" where
  "invoked [] = []"
| "invoked (Invoke r # es) = r # invoked es"
| "invoked (Spawn c # es) = invoked es"
| "invoked (Exit x # es) = invoked es"

text \<open>The commands spawned, in order.\<close>

fun spawned :: "event list \<Rightarrow> Cmd list" where
  "spawned [] = []"
| "spawned (Invoke r # es) = spawned es"
| "spawned (Spawn c # es) = c # spawned es"
| "spawned (Exit x # es) = spawned es"

text \<open>One thing at a time: no call of the runner and no spawn while a child is running,
  no exit without a running child, and no child left running at the end. The flag says
  whether a child is running.\<close>

fun one_at_a_time :: "bool \<Rightarrow> event list \<Rightarrow> bool" where
  "one_at_a_time running [] = (\<not> running)"
| "one_at_a_time running (Invoke r # es) = (\<not> running \<and> one_at_a_time False es)"
| "one_at_a_time running (Spawn c # es) = (\<not> running \<and> one_at_a_time True es)"
| "one_at_a_time running (Exit x # es) = (running \<and> one_at_a_time False es)"

text \<open>The command that \<open>runRcloneSync\<close> spawns for a remote.\<close>

definition cmd_for :: "env \<Rightarrow> Plugin \<Rightarrow> RcloneRemote \<Rightarrow> Cmd" where
  "cmd_for e p r = \<lparr> exe = or_empty (rclonePath (settings p)),
       argv = [lit ''bisync'', or_empty (getBasePath e), remoteTarget r, lit ''--verbose'', lit ''--resync''],
       shell = False \<rparr>"

text \<open>The plugin when the loop of a run reaches the \<open>i\<close>-th enabled remote, and what the
  runner returns for that remote there.\<close>

definition state_before :: "env \<Rightarrow> Plugin \<Rightarrow> nat \<Rightarrow> Plugin" where
  "state_before e p i = fst (sync_loop e (take i (enabledRemotes p)) (loop_start p, []))"

definition outcome :: "env \<Rightarrow> Plugin \<Rightarrow> nat \<Rightarrow> js_error + jstring" where
  "outcome e p i = snd (runRcloneSync e (state_before e p i) (enabledRemotes p ! i))"

section \<open>An example configuration\<close>

text \<open>Three remotes, the second disabled; the child for the third exits with code 1, any
  other child reports that nothing changed.\<close>

definition remote_a :: RcloneRemote where
  "remote_a = \<lparr> name = lit ''a'', path = lit ''a:v'', enable = True \<rparr>"

definition remote_b :: RcloneRemote where
  "remote_b = \<lparr> name = lit ''b'', path = lit ''x'', enable = False \<rparr>"

definition remote_c :: RcloneRemote where
  "remote_c = \<lparr> name = lit ''c'', path = lit ''y'', enable = True \<rparr>"

definition env_ex :: env where
  "env_ex = \<lparr> getBasePath = Some (lit ''/vault''),
              child = (\<lambda>h c. if lit ''c:y'' \<in> set (argv c)
                              then CloseEvent (Some 1) [] (lit ''permission denied'') (lit ''0.3'')
                              else CloseEvent (Some 0) (lit ''No changes'') [] (lit ''0.5'')),
              batchDuration = (\<lambda>h. lit ''0.8''),
              numberText = (\<lambda>ds. lit ''1e+21'') \<rparr>"

definition plugin_ex :: Plugin where
  "plugin_ex = \<lparr> dataFile = None,
                 settings = \<lparr> rclonePath = Some (lit ''/usr/bin/rclone''),
                              remotes = Some [remote_a, remote_b, remote_c],
                              remoteName = Absent, remotePath = Absent \<rparr>,
                 statusBar = Some (lit ''Rclone: '' @ status_ready),
                 isSyncing = False,
                 notices = [],
                 trace = [] \<rparr>"

text \<open>The same plugin while a run is in progress, with no executable path and one remote,
  and with no enabled remote.\<close>

definition plugin_busy :: Plugin where
  "plugin_busy = plugin_ex \<lparr> isSyncing := True \<rparr>"

definition plugin_noexe :: Plugin where
  "plugin_noexe = plugin_ex \<lparr> settings := \<lparr> rclonePath = Some [], remotes = Some [remote_a],
                                             remoteName = Absent, remotePath = Absent \<rparr> \<rparr>"

definition plugin_none :: Plugin where
  "plugin_none = plugin_ex \<lparr> settings := \<lparr> rclonePath = Some (lit ''/usr/bin/rclone''),
                                            remotes = Some [remote_b],
                                            remoteName = Absent, remotePath = Absent \<rparr> \<rparr>"

text \<open>A remote with a name and no path, and one with neither.\<close>

definition remote_root :: RcloneRemote where
  "remote_root = \<lparr> name = lit ''onedrive'', path = [], enable = True \<rparr>"

definition remote_blank :: RcloneRemote where
  "remote_blank = \<lparr> name = [], path = [], enable = True \<rparr>"

text \<open>Stored data of the older version: with a remote configured, and as that version
  saves it when only the executable path was entered.\<close>

definition data_legacy :: StoredData where
  "data_legacy = \<lparr> d_rclonePath = Val (lit ''/usr/bin/rclone''), d_remotes = Absent,
                   d_remoteName = Val (lit ''onedrive''), d_remotePath = Val (lit ''vault'') \<rparr>"

definition data_blank :: StoredData where
  "data_blank = \<lparr> d_rclonePath = Val (lit ''/usr/bin/rclone''), d_remotes = Absent,
                  d_remoteName = Val [], d_remotePath = Val [] \<rparr>"

text \<open>A plugin whose stored data is that of the older version with a remote configured,
  and the remote made of it.\<close>

definition plugin_legacy :: Plugin where
  "plugin_legacy = plugin_ex \<lparr> dataFile := Some data_legacy \<rparr>"

definition remote_legacy :: RcloneRemote where
  "remote_legacy = \<lparr> name = lit ''onedrive'', path = lit ''vault'', enable = True \<rparr>"

text \<open>Stored data of the current version, with the older fields still present.\<close>

definition data_current :: StoredData where
  "data_current = \<lparr> d_rclonePath = Val (lit ''/usr/bin/rclone''), d_remotes = Val [remote_c],
                    d_remoteName = Val (lit ''onedrive''), d_remotePath = Val (lit ''vault'') \<rparr>"

text \<open>A remote whose path holds shell metacharacters.\<close>

definition remote_shell :: RcloneRemote where
  "remote_shell = \<lparr> name = lit ''r'', path = lit ''r:v; rm -rf $HOME'', enable = True \<rparr>"

text \<open>Outputs of the child: a size line with a phrase of the marker; a count of 0 files
  with no phrase; a transfer with size, count and checks lines; a count beyond \<open>2^53\<close>;
  and a text that matches nothing.\<close>

definition out_uptodate :: jstring where
  "out_uptodate = lit ''Transferred: 2 KiB / 2 KiB, 100%'' @ [10] @ lit ''Bisync: up to date''"

definition out_zero :: jstring where
  "out_zero = lit ''Transferred: 0 B / 9 B, -'' @ [10] @ lit ''Transferred: 0 / 5, -''"

definition out_transfer :: jstring where
  "out_transfer = lit ''Transferred: 1.5 MiB / 2.5 MiB, 60%'' @ [10]
                  @ lit ''Transferred: 3 / 7, 43%'' @ [10] @ lit ''Checks: 10 / 12, 83%''"

definition out_big :: jstring where
  "out_big = lit ''Transferred: 1 KiB / 1 KiB, 100%'' @ [10]
             @ lit ''Transferred: 1000000000000000000000 / 1000000000000000000000''"

definition out_other :: jstring where
  "out_other = lit ''bisync finished''"

section \<open>Properties of the runner and the loop\<close>

lemma runRcloneSync_cases:
  "runRcloneSync e p r = (p\<lparr>trace := trace p @ [Invoke r]\<rparr>, Inl (Error msg_no_rclone))
   \<or> runRcloneSync e p r = (p\<lparr>trace := trace p @ [Invoke r]\<rparr>, Inl (Error msg_no_vault))
   \<or> runRcloneSync e p r = (p\<lparr>trace := trace p @ [Invoke r]\<rparr>, Inl (Error msg_no_remote))
   \<or> (\<exists>res. runRcloneSync e p r =
         (p\<lparr>trace := trace p @ [Invoke r, Spawn \<lparr>exe = or_empty (rclonePath (settings p)),
             argv = args (or_empty (getBasePath e)) (remoteTarget r), shell = False\<rparr>, Exit res]\<rparr>,
          settle (numberText e) res))"
  unfolding runRcloneSync_def Let_def by auto

lemma runRcloneSync_fields:
  "settings (fst (runRcloneSync e p r)) = settings p
   \<and> statusBar (fst (runRcloneSync e p r)) = statusBar p
   \<and> isSyncing (fst (runRcloneSync e p r)) = isSyncing p
   \<and> notices (fst (runRcloneSync e p r)) = notices p
   \<and> dataFile (fst (runRcloneSync e p r)) = dataFile p"
  unfolding runRcloneSync_def Let_def by simp

lemma sync_loop_fields:
  "settings (fst (sync_loop e rs (p, acc))) = settings p
   \<and> statusBar (fst (sync_loop e rs (p, acc))) = statusBar p
   \<and> isSyncing (fst (sync_loop e rs (p, acc))) = isSyncing p
   \<and> notices (fst (sync_loop e rs (p, acc))) = notices p
   \<and> dataFile (fst (sync_loop e rs (p, acc))) = dataFile p"
proof (induction rs arbitrary: p acc)
  case Nil
  show ?case by simp
next
  case (Cons r rs)
  obtain p' out where step: "runRcloneSync e p r = (p', out)" by (cases "runRcloneSync e p r")
  have p': "settings p' = settings p \<and> statusBar p' = statusBar p \<and> isSyncing p' = isSyncing p
      \<and> notices p' = notices p \<and> dataFile p' = dataFile p"
    using runRcloneSync_fields [of e p r] step by simp
  show ?case using Cons.IH [of p' "acc @ [to_result r out]"] step p' by simp
qed

lemma sync_loop_append:
  "sync_loop e (rs @ rs') (p, acc) = sync_loop e rs' (sync_loop e rs (p, acc))"
proof (induction rs arbitrary: p acc)
  case Nil
  show ?case by simp
next
  case (Cons r rs)
  show ?case by (simp add: Cons.IH split: prod.split)
qed

lemma sync_loop_results:
  "\<exists>new. snd (sync_loop e rs (p, acc)) = acc @ new \<and> map remote new = rs"
proof (induction rs arbitrary: p acc)
  case Nil
  show ?case by simp
next
  case (Cons r rs)
  obtain p' out where step: "runRcloneSync e p r = (p', out)" by (cases "runRcloneSync e p r")
  obtain new where new: "snd (sync_loop e rs (p', acc @ [to_result r out])) = (acc @ [to_result r out]) @ new"
     "map remote new = rs"
    using Cons.IH [of p' "acc @ [to_result r out]"] by blast
  have "remote (to_result r out) = r" by (cases out) simp_all
  then show ?case using step new by (intro exI [of _ "to_result r out # new"]) simp
qed

lemma sync_loop_length: "length (snd (sync_loop e rs (p, acc))) = length acc + length rs"
  using sync_loop_results [of e rs p acc] by (metis length_append length_map)

lemma sync_loop_nth:
  assumes "i < length rs"
  shows "snd (sync_loop e rs (p, [])) ! i
         = to_result (rs ! i) (snd (runRcloneSync e (fst (sync_loop e (take i rs) (p, []))) (rs ! i)))"
proof -
  obtain q acc where pre: "sync_loop e (take i rs) (p, []) = (q, acc)"
    by (cases "sync_loop e (take i rs) (p, [])")
  have len: "length acc = i"
    using sync_loop_length [of e "take i rs" p "[]"] pre assms by simp
  obtain q' out where step: "runRcloneSync e q (rs ! i) = (q', out)"
    by (cases "runRcloneSync e q (rs ! i)")
  have split: "rs = take i rs @ (rs ! i) # drop (Suc i) rs"
    using assms by (simp add: id_take_nth_drop)
  have "sync_loop e rs (p, []) = sync_loop e ((rs ! i) # drop (Suc i) rs) (q, acc)"
    using sync_loop_append [of e "take i rs" "(rs ! i) # drop (Suc i) rs" p "[]"] pre split by simp
  also have "\<dots> = sync_loop e (drop (Suc i) rs) (q', acc @ [to_result (rs ! i) out])"
    using step by simp
  finally have eq: "sync_loop e rs (p, []) = sync_loop e (drop (Suc i) rs) (q', acc @ [to_result (rs ! i) out])" .
  obtain new where "snd (sync_loop e (drop (Suc i) rs) (q', acc @ [to_result (rs ! i) out]))
      = (acc @ [to_result (rs ! i) out]) @ new"
    using sync_loop_results [of e "drop (Suc i) rs" q' "acc @ [to_result (rs ! i) out]"] by blast
  then have "snd (sync_loop e rs (p, [])) ! i = to_result (rs ! i) out"
    using eq len by (simp add: nth_append)
  then show ?thesis using pre step by simp
qed

lemma one_at_a_time_append:
  "one_at_a_time b xs \<Longrightarrow> one_at_a_time False ys \<Longrightarrow> one_at_a_time b (xs @ ys)"
proof (induction xs arbitrary: b)
  case Nil
  then show ?case by simp
next
  case (Cons x xs)
  then show ?case by (cases x) auto
qed

lemma invoked_append: "invoked (xs @ ys) = invoked xs @ invoked ys"
proof (induction xs)
  case Nil
  show ?case by simp
next
  case (Cons x xs)
  then show ?case by (cases x) simp_all
qed

lemma spawned_append: "spawned (xs @ ys) = spawned xs @ spawned ys"
proof (induction xs)
  case Nil
  show ?case by simp
next
  case (Cons x xs)
  then show ?case by (cases x) simp_all
qed

lemma runRcloneSync_events:
  "\<exists>ev. trace (fst (runRcloneSync e p r)) = trace p @ ev \<and> invoked ev = [r]
        \<and> one_at_a_time False ev \<and> set (spawned ev) \<subseteq> {cmd_for e p r}"
  using runRcloneSync_cases [of e p r]
  by (auto simp: args_def cmd_for_def)

lemma cmd_for_cong: "settings q = settings p \<Longrightarrow> cmd_for e q r = cmd_for e p r"
  by (simp add: cmd_for_def)

lemma sync_loop_events:
  "\<exists>ev. trace (fst (sync_loop e rs (p, acc))) = trace p @ ev \<and> invoked ev = rs
        \<and> one_at_a_time False ev \<and> set (spawned ev) \<subseteq> cmd_for e p ` set rs"
proof (induction rs arbitrary: p acc)
  case Nil
  show ?case by simp
next
  case (Cons r rs)
  obtain p' out where step: "runRcloneSync e p r = (p', out)" by (cases "runRcloneSync e p r")
  obtain ev where ev: "trace p' = trace p @ ev" "invoked ev = [r]" "one_at_a_time False ev"
     "set (spawned ev) \<subseteq> {cmd_for e p r}"
    using runRcloneSync_events [of e p r] step by auto
  have same: "settings p' = settings p" using runRcloneSync_fields [of e p r] step by simp
  obtain ev' where ev': "trace (fst (sync_loop e rs (p', acc @ [to_result r out]))) = trace p' @ ev'"
     "invoked ev' = rs" "one_at_a_time False ev'" "set (spawned ev') \<subseteq> cmd_for e p' ` set rs"
    using Cons.IH [of p' "acc @ [to_result r out]"] by blast
  have cmds: "cmd_for e p' = cmd_for e p" using cmd_for_cong [OF same] by (rule ext)
  have "trace (fst (sync_loop e (r # rs) (p, acc))) = trace p @ (ev @ ev')"
    using step ev(1) ev'(1) by simp
  moreover have "invoked (ev @ ev') = r # rs" using ev(2) ev'(2) by (simp add: invoked_append)
  moreover have "one_at_a_time False (ev @ ev')" using ev(3) ev'(3) by (rule one_at_a_time_append)
  moreover have "set (spawned (ev @ ev')) \<subseteq> cmd_for e p ` set (r # rs)"
    using ev(4) ev'(4) cmds by (auto simp: spawned_append)
  ultimately show ?case by blast
qed

lemma enabledRemotes_loop_start: "enabledRemotes (loop_start p) = enabledRemotes p"
  by (simp add: loop_start_def enabledRemotes_def updateStatus_def split: option.split)

lemma loop_start_fields:
  "settings (loop_start p) = settings p \<and> isSyncing (loop_start p) \<and> notices (loop_start p) = notices p
   \<and> trace (loop_start p) = trace p \<and> dataFile (loop_start p) = dataFile p
   \<and> statusBar (loop_start p) = (case statusBar p of None \<Rightarrow> None | Some _ \<Rightarrow> Some (lit ''Rclone: '' @ status_syncing))"
  by (simp add: loop_start_def updateStatus_def split: option.split)

lemma loop_end_fields:
  "settings (loop_end e p) = settings p \<and> isSyncing (loop_end e p) \<and> notices (loop_end e p) = notices p
   \<and> dataFile (loop_end e p) = dataFile p \<and> statusBar (loop_end e p) = statusBar (loop_start p)"
  using sync_loop_fields [of e "enabledRemotes p" "loop_start p" "[]"] loop_start_fields [of p]
  by (simp add: loop_end_def)

lemma sync_body_run:
  assumes "enabledRemotes p \<noteq> []"
  shows "sync_body e (loop_start p) =
     (Notice (updateStatus (loop_end e p)
                (if list_all success (run_results e p) then status_ok else status_failed))
             (report (batchDuration e (trace (loop_end e p))) (run_results e p)),
      Inr ())"
  using assms
  by (simp add: sync_body_def enabledRemotes_loop_start run_results_def loop_end_def Let_def
        split: prod.split)

lemma sync_body_none:
  assumes "enabledRemotes p = []"
  shows "sync_body e (loop_start p) = (loop_start p, Inl (Error msg_none_enabled))"
  using assms by (simp add: sync_body_def enabledRemotes_loop_start)

lemma handleSync_busy: "isSyncing p \<Longrightarrow> handleSync e p = p\<lparr>notices := notices p @ [msg_busy]\<rparr>"
  by (simp add: handleSync_def handleSync_frame_def Notice_def)

lemma handleSync_run:
  assumes "\<not> isSyncing p" "enabledRemotes p \<noteq> []"
  shows "handleSync e p =
     (Notice (updateStatus (loop_end e p)
                (if list_all success (run_results e p) then status_ok else status_failed))
             (report (batchDuration e (trace (loop_end e p))) (run_results e p)))
       \<lparr>isSyncing := False\<rparr>"
  using assms sync_body_run [OF assms(2), of e]
  by (simp add: handleSync_def handleSync_frame_def loop_start_def Let_def)

lemma handleSync_none:
  assumes "\<not> isSyncing p" "enabledRemotes p = []"
  shows "handleSync e p =
     (Notice (updateStatus (loop_start p) status_failed) (msg_sync_failed @ msg_none_enabled))
       \<lparr>isSyncing := False\<rparr>"
  using assms sync_body_none [OF assms(2), of e]
  by (simp add: handleSync_def handleSync_frame_def loop_start_def Let_def)

lemma loop_events:
  "\<exists>ev. trace (loop_end e p) = trace p @ ev \<and> invoked ev = enabledRemotes p
        \<and> one_at_a_time False ev \<and> set (spawned ev) \<subseteq> cmd_for e p ` set (enabledRemotes p)"
proof -
  have "cmd_for e (loop_start p) = cmd_for e p"
    using cmd_for_cong [of "loop_start p" p e] loop_start_fields [of p] by (intro ext) simp
  then show ?thesis
    using sync_loop_events [of e "enabledRemotes p" "loop_start p" "[]"] loop_start_fields [of p]
    by (simp add: loop_end_def)
qed

lemma trace_handleSync_run:
  assumes "\<not> isSyncing p" "enabledRemotes p \<noteq> []"
  shows "trace (handleSync e p) = trace (loop_end e p)"
  using handleSync_run [OF assms, of e]
  by (simp add: Notice_def updateStatus_def split: option.split)

lemma trace_handleSync_none:
  assumes "\<not> isSyncing p" "enabledRemotes p = []"
  shows "trace (handleSync e p) = trace p"
  using handleSync_none [OF assms, of e] loop_start_fields [of p]
  by (simp add: Notice_def updateStatus_def split: option.split)

lemma handleSync_events:
  assumes "\<not> isSyncing p"
  shows "invoked (new_events p (handleSync e p)) = enabledRemotes p
     \<and> one_at_a_time False (new_events p (handleSync e p))
     \<and> set (spawned (new_events p (handleSync e p))) \<subseteq> cmd_for e p ` set (enabledRemotes p)"
proof (cases "enabledRemotes p = []")
  case True
  then show ?thesis using trace_handleSync_none [OF assms True, of e] by (simp add: new_events_def)
next
  case False
  obtain ev where ev: "trace (loop_end e p) = trace p @ ev" "invoked ev = enabledRemotes p"
    "one_at_a_time False ev" "set (spawned ev) \<subseteq> cmd_for e p ` set (enabledRemotes p)"
    using loop_events [of e p] by blast
  have "new_events p (handleSync e p) = ev"
    using trace_handleSync_run [OF assms False, of e] ev(1) by (simp add: new_events_def)
  then show ?thesis using ev by simp
qed

lemma run_results_length: "length (run_results e p) = length (enabledRemotes p)"
  using sync_loop_length [of e "enabledRemotes p" "loop_start p" "[]"] by (simp add: run_results_def)

lemma run_results_nth:
  assumes "i < length (enabledRemotes p)"
  shows "run_results e p ! i = to_result (enabledRemotes p ! i) (outcome e p i)"
  using sync_loop_nth [OF assms, of e "loop_start p"]
  by (simp add: run_results_def outcome_def state_before_def)

lemma notices_handleSync_run:
  assumes "\<not> isSyncing p" "enabledRemotes p \<noteq> []"
  shows "notices (handleSync e p)
         = notices p @ [report (batchDuration e (trace (loop_end e p))) (run_results e p)]"
  using handleSync_run [OF assms, of e] loop_end_fields [of e p]
  by (simp add: Notice_def updateStatus_def split: option.split)

text \<open>
  C1. Failure isolation. In a run started while no run is in progress, every enabled
  remote gets exactly one entry in \<open>results\<close>, and the entry for the \<open>i\<close>-th one is made
  from what the runner returned for that remote alone: a rejection (a spawn error, an exit
  code other than 0, or a failed check) becomes a failed entry whose summary is the prefix
  of \<open>msg_failed\<close> followed by the error's message, a summary becomes a successful entry.
  This holds for every \<open>i\<close>, whatever the runner returned for the other remotes: the
  runner is called for every enabled remote, in order. The \<open>try\<close> block does not throw,
  and the run ends with the report notice.
\<close>

theorem failure_isolation:
  assumes "\<not> isSyncing p" and "i < length (enabledRemotes p)"
  shows "length (run_results e p) = length (enabledRemotes p)
    \<and> (\<forall>err. outcome e p i = Inl err \<longrightarrow>
          run_results e p ! i = \<lparr> remote = enabledRemotes p ! i, success = False,
                                  summary = msg_failed @ message err \<rparr>)
    \<and> (\<forall>s. outcome e p i = Inr s \<longrightarrow>
          run_results e p ! i = \<lparr> remote = enabledRemotes p ! i, success = True, summary = s \<rparr>)
    \<and> settle big (ErrorEvent m) = Inl (Error m)
    \<and> (code \<noteq> Some 0 \<longrightarrow>
          settle big (CloseEvent code out err' d) = Inl (Error (msg_exit big code out err')))
    \<and> invoked (new_events p (handleSync e p)) = enabledRemotes p
    \<and> snd (sync_body e (loop_start p)) = Inr ()
    \<and> notices (handleSync e p)
        = notices p @ [report (batchDuration e (trace (loop_end e p))) (run_results e p)]"
proof -
  have ne: "enabledRemotes p \<noteq> []" using assms(2) by auto
  have nth: "run_results e p ! i = to_result (enabledRemotes p ! i) (outcome e p i)"
    by (rule run_results_nth [OF assms(2)])
  have "snd (sync_body e (loop_start p)) = Inr ()"
    using sync_body_run [OF ne, of e] by simp
  then show ?thesis
    using nth run_results_length [of e p] notices_handleSync_run [OF assms(1) ne, of e]
      handleSync_events [OF assms(1), of e]
    by simp
qed

theorem failure_isolation_witness:
  "\<not> isSyncing plugin_ex \<and> (1::nat) < length (enabledRemotes plugin_ex)
   \<and> length (run_results env_ex plugin_ex) = length (enabledRemotes plugin_ex)
   \<and> outcome env_ex plugin_ex 0 = Inr (msg_uptodate @ lit ''0.5s)'')
   \<and> outcome env_ex plugin_ex 1 = Inl (Error (msg_exit (numberText env_ex) (Some 1) [] (lit ''permission denied'')))
   \<and> run_results env_ex plugin_ex ! 1
       = \<lparr> remote = enabledRemotes plugin_ex ! 1, success = False,
           summary = msg_failed @ message (Error (msg_exit (numberText env_ex) (Some 1) [] (lit ''permission denied''))) \<rparr>
   \<and> run_results env_ex plugin_ex ! 0
       = \<lparr> remote = enabledRemotes plugin_ex ! 0, success = True,
           summary = msg_uptodate @ lit ''0.5s)'' \<rparr>
   \<and> invoked (new_events plugin_ex (handleSync env_ex plugin_ex)) = enabledRemotes plugin_ex"
proof -
  have idle: "\<not> isSyncing plugin_ex" by code_simp
  have i1: "(1::nat) < length (enabledRemotes plugin_ex)" by code_simp
  have i0: "(0::nat) < length (enabledRemotes plugin_ex)" by code_simp
  have o0: "outcome env_ex plugin_ex 0 = Inr (msg_uptodate @ lit ''0.5s)'')" by code_simp
  have o1: "outcome env_ex plugin_ex 1 = Inl (Error (msg_exit (numberText env_ex) (Some 1) [] (lit ''permission denied'')))"
    by code_simp
  note a = failure_isolation [OF idle i1, of env_ex]
  note b = failure_isolation [OF idle i0, of env_ex]
  show ?thesis using idle i1 o0 o1 a b by blast
qed

lemma hd_join_nl: "x \<noteq> [] \<Longrightarrow> hd (join_nl (x # xs)) = hd x"
  by (cases xs) simp_all

lemma msg_busy_distinct: "msg_busy \<noteq> msg_sync_failed @ m \<and> msg_busy \<noteq> report d rs"
proof -
  have "hd msg_busy = 0x5df2" by (simp add: msg_busy_def)
  moreover have "hd (msg_sync_failed @ m) = 0x540c" by (simp add: msg_sync_failed_def)
  moreover have "hd (report d rs) = 0x540c"
    by (simp add: report_def hd_join_nl msg_sync_done_def)
  ultimately show ?thesis by (metis numeral_eq_iff num.inject semiring_norm(88) semiring_norm(89) semiring_norm(90))
qed

lemma msg_busy_distinct': "msg_sync_failed @ m \<noteq> msg_busy \<and> report d rs \<noteq> msg_busy"
  using msg_busy_distinct [of m d rs] by auto

lemma handleSync_frame_idle:
  assumes "\<not> isSyncing p"
  shows "handleSync_frame body p =
     (case body (loop_start p) of
        (p2, res) \<Rightarrow>
          (case res of
             Inr _ \<Rightarrow> p2
           | Inl err \<Rightarrow> Notice (updateStatus p2 status_failed) (msg_sync_failed @ message err))
            \<lparr> isSyncing := False \<rparr>)"
  using assms by (simp add: handleSync_frame_def loop_start_def Let_def split: prod.split)

lemma state_before_fields:
  "isSyncing (state_before e p i) \<and> settings (state_before e p i) = settings p"
  using sync_loop_fields [of e "take i (enabledRemotes p)" "loop_start p" "[]"] loop_start_fields [of p]
  by (simp add: state_before_def)

text \<open>
  C2. Single-flight guard. A request made while \<open>isSyncing\<close> is set shows the notice
  \<open>msg_busy\<close>, which differs from the notices a run ends with, and changes nothing else:
  no event is added, so no subprocess starts, and the flag stays set. A request made while
  the flag is clear sets the flag before anything else: the \<open>try\<close> block, whatever it is,
  runs on \<open>loop_start p\<close>, where the flag is set; so a request made inside the \<open>try\<close> block
  is refused with \<open>msg_busy\<close>, and so is a request made in the state in which the loop of
  \<open>handleSync\<close> calls the runner for any of the remotes. Such a request ends with the flag
  clear whatever the \<open>try\<close> block does (it may return or throw: \<open>body\<close> is arbitrary), so
  the next request is not refused.
\<close>

theorem single_flight_guard:
  "(isSyncing p \<longrightarrow>
      handleSync e p = p \<lparr> notices := notices p @ [msg_busy] \<rparr>
      \<and> new_events p (handleSync e p) = [])
   \<and> msg_busy \<noteq> msg_sync_failed @ m \<and> msg_busy \<noteq> report d rs'
   \<and> (\<not> isSyncing p \<longrightarrow>
        \<not> isSyncing (handleSync_frame body p)
        \<and> \<not> isSyncing (handleSync e p)
        \<and> isSyncing (fst (sync_loop e rs (loop_start p, acc)))
        \<and> last (notices (handleSync e' (handleSync e p))) \<noteq> msg_busy
        \<and> isSyncing (loop_start p)
        \<and> handleSync_frame body p =
            (case body (loop_start p) of
               (p2, res) \<Rightarrow>
                 (case res of
                    Inr _ \<Rightarrow> p2
                  | Inl err \<Rightarrow>
                      Notice (updateStatus p2 status_failed) (msg_sync_failed @ message err))
                   \<lparr> isSyncing := False \<rparr>)
        \<and> handleSync e p =
            (case sync_body e (loop_start p) of
               (p2, res) \<Rightarrow>
                 (case res of
                    Inr _ \<Rightarrow> p2
                  | Inl err \<Rightarrow>
                      Notice (updateStatus p2 status_failed) (msg_sync_failed @ message err))
                   \<lparr> isSyncing := False \<rparr>)
        \<and> handleSync_frame (\<lambda>q. (handleSync e' q, Inr ())) p
            = (loop_start p) \<lparr> notices := notices p @ [msg_busy], isSyncing := False \<rparr>
        \<and> handleSync e' (state_before e p i)
            = (state_before e p i) \<lparr> notices := notices (state_before e p i) @ [msg_busy] \<rparr>)"
proof -
  have busy: "isSyncing p \<Longrightarrow> handleSync e p = p \<lparr> notices := notices p @ [msg_busy] \<rparr>
      \<and> new_events p (handleSync e p) = []"
    by (simp add: handleSync_busy new_events_def)
  have reset: "\<not> isSyncing q \<Longrightarrow> \<not> isSyncing (handleSync_frame b q)" for b q
    by (simp add: handleSync_frame_def Let_def split: prod.split)
  have run: "isSyncing (fst (sync_loop e rs (loop_start p, acc)))"
    using sync_loop_fields [of e rs "loop_start p" acc] loop_start_fields [of p] by simp
  have last_notice: "last (notices (handleSync e' q)) \<noteq> msg_busy" if idle: "\<not> isSyncing q" for q
  proof (cases "enabledRemotes q = []")
    case True
    show ?thesis
      using handleSync_none [OF idle True, of e'] msg_busy_distinct' [of msg_none_enabled]
      by (simp add: Notice_def)
  next
    case False
    show ?thesis
      using notices_handleSync_run [OF idle False, of e'] msg_busy_distinct' by simp
  qed
  have again: "\<not> isSyncing p \<Longrightarrow> last (notices (handleSync e' (handleSync e p))) \<noteq> msg_busy"
    using last_notice [of "handleSync e p"] reset [of p "sync_body e"] by (simp add: handleSync_def)
  have reset': "\<not> isSyncing p \<Longrightarrow> \<not> isSyncing (handleSync e p)"
    using reset [of p "sync_body e"] by (simp add: handleSync_def)
  have set_flag: "isSyncing (loop_start p)" using loop_start_fields [of p] by simp
  have nested: "handleSync_frame (\<lambda>q. (handleSync e' q, Inr ())) p
            = (loop_start p) \<lparr> notices := notices p @ [msg_busy], isSyncing := False \<rparr>"
    if idle: "\<not> isSyncing p"
    using handleSync_frame_idle [OF idle, of "\<lambda>q. (handleSync e' q, Inr ())"]
      handleSync_busy [OF set_flag, of e'] loop_start_fields [of p]
    by simp
  have during: "handleSync e' (state_before e p i)
            = (state_before e p i) \<lparr> notices := notices (state_before e p i) @ [msg_busy] \<rparr>"
    using handleSync_busy [of "state_before e p i" e'] state_before_fields [of e p i] by simp
  have frame: "\<not> isSyncing p \<Longrightarrow> handleSync e p =
            (case sync_body e (loop_start p) of
               (p2, res) \<Rightarrow>
                 (case res of
                    Inr _ \<Rightarrow> p2
                  | Inl err \<Rightarrow>
                      Notice (updateStatus p2 status_failed) (msg_sync_failed @ message err))
                   \<lparr> isSyncing := False \<rparr>)"
    using handleSync_frame_idle [of p "sync_body e"] by (simp add: handleSync_def)
  show ?thesis
    using busy reset [of p body] reset' run again msg_busy_distinct [of m d rs'] set_flag
      handleSync_frame_idle [of p body] frame nested during
    by blast
qed

theorem single_flight_guard_witness:
  "isSyncing plugin_busy
   \<and> handleSync env_ex plugin_busy = plugin_busy \<lparr> notices := notices plugin_busy @ [msg_busy] \<rparr>
   \<and> new_events plugin_busy (handleSync env_ex plugin_busy) = []
   \<and> \<not> isSyncing plugin_ex
   \<and> \<not> isSyncing (handleSync_frame (\<lambda>q. (q, Inl (Error (lit ''boom'')))) plugin_ex)
   \<and> \<not> isSyncing (handleSync env_ex plugin_ex)
   \<and> last (notices (handleSync env_ex (handleSync env_ex plugin_ex))) \<noteq> msg_busy
   \<and> handleSync_frame (\<lambda>q. (handleSync env_ex q, Inr ())) plugin_ex
       = (loop_start plugin_ex) \<lparr> notices := notices plugin_ex @ [msg_busy], isSyncing := False \<rparr>
   \<and> notices (handleSync_frame (\<lambda>q. (handleSync env_ex q, Inr ())) plugin_ex) = [msg_busy]
   \<and> trace (handleSync_frame (\<lambda>q. (handleSync env_ex q, Inr ())) plugin_ex) = []
   \<and> handleSync env_ex (state_before env_ex plugin_ex 1)
       = (state_before env_ex plugin_ex 1)
           \<lparr> notices := notices (state_before env_ex plugin_ex 1) @ [msg_busy] \<rparr>
   \<and> spawned (trace (state_before env_ex plugin_ex 1)) = [cmd_for env_ex plugin_ex remote_a]
   \<and> trace (handleSync env_ex (state_before env_ex plugin_ex 1))
       = trace (state_before env_ex plugin_ex 1)"
proof -
  have busy: "isSyncing plugin_busy" by code_simp
  have idle: "\<not> isSyncing plugin_ex" by code_simp
  have n: "notices (handleSync_frame (\<lambda>q. (handleSync env_ex q, Inr ())) plugin_ex) = [msg_busy]"
    "trace (handleSync_frame (\<lambda>q. (handleSync env_ex q, Inr ())) plugin_ex) = []"
    by code_simp+
  have s: "spawned (trace (state_before env_ex plugin_ex 1)) = [cmd_for env_ex plugin_ex remote_a]"
    by code_simp
  note a = single_flight_guard [of plugin_busy env_ex]
  note b = single_flight_guard [of plugin_ex env_ex _ _ _ "\<lambda>q. (q, Inl (Error (lit ''boom'')))" _ _ env_ex 1]
  have c: "handleSync env_ex (state_before env_ex plugin_ex 1)
       = (state_before env_ex plugin_ex 1)
           \<lparr> notices := notices (state_before env_ex plugin_ex 1) @ [msg_busy] \<rparr>"
    using idle b by blast
  have t: "trace (handleSync env_ex (state_before env_ex plugin_ex 1))
       = trace (state_before env_ex plugin_ex 1)"
    unfolding c by simp
  show ?thesis using busy idle n s a b c t by blast
qed

lemma remoteTarget_empty_iff: "(remoteTarget r = []) = (name r = [] \<and> 58 \<notin> set (path r))"
  by (auto simp: remoteTarget_def)

lemma runRcloneSync_config_error:
  assumes "\<not> truthy (rclonePath (settings p)) \<or> \<not> truthy (getBasePath e) \<or> remoteTarget r = []"
  shows "\<exists>m. runRcloneSync e p r = (p \<lparr> trace := trace p @ [Invoke r] \<rparr>, Inl (Error m))
             \<and> (m = msg_no_rclone \<or> m = msg_no_vault \<or> m = msg_no_remote)"
  using assms unfolding runRcloneSync_def Let_def by auto

lemma runRcloneSync_spawns:
  assumes "truthy (rclonePath (settings p))" "truthy (getBasePath e)" "remoteTarget r \<noteq> []"
  shows "runRcloneSync e p r =
     (p \<lparr> trace := trace p @ [Invoke r, Spawn (cmd_for e p r),
                               Exit (child e (trace p @ [Invoke r]) (cmd_for e p r))] \<rparr>,
      settle (numberText e) (child e (trace p @ [Invoke r]) (cmd_for e p r)))"
  using assms unfolding runRcloneSync_def Let_def by (simp add: cmd_for_def args_def)

text \<open>
  C4. Remote-address resolution. If the path holds a colon, the address is the path; if
  it holds none and the name is non-empty, the address is the name, a colon and the path;
  if it holds none and the name is empty, the runner rejects with one of its three
  configuration errors (the one about the remote when the executable path and the vault
  path are there) and the only event is the call itself: nothing is spawned.
\<close>

theorem remote_address_resolution:
  "(58 \<in> set (path r) \<longrightarrow> remoteTarget r = path r)
   \<and> (58 \<notin> set (path r) \<and> name r \<noteq> [] \<longrightarrow> remoteTarget r = name r @ [58] @ path r)
   \<and> (58 \<notin> set (path r) \<and> name r = [] \<longrightarrow>
        (\<exists>m. runRcloneSync e p r = (p \<lparr> trace := trace p @ [Invoke r] \<rparr>, Inl (Error m))
             \<and> (m = msg_no_rclone \<or> m = msg_no_vault \<or> m = msg_no_remote)
             \<and> (truthy (rclonePath (settings p)) \<and> truthy (getBasePath e) \<longrightarrow> m = msg_no_remote)))"
proof -
  have "\<exists>m. runRcloneSync e p r = (p \<lparr> trace := trace p @ [Invoke r] \<rparr>, Inl (Error m))
             \<and> (m = msg_no_rclone \<or> m = msg_no_vault \<or> m = msg_no_remote)
             \<and> (truthy (rclonePath (settings p)) \<and> truthy (getBasePath e) \<longrightarrow> m = msg_no_remote)"
    if "58 \<notin> set (path r)" "name r = []"
    using that unfolding runRcloneSync_def Let_def remoteTarget_def by auto
  then show ?thesis by (simp add: remoteTarget_def)
qed

theorem remote_address_resolution_witness:
  "58 \<in> set (path remote_a) \<and> remoteTarget remote_a = lit ''a:v''
   \<and> 58 \<notin> set (path remote_c) \<and> name remote_c \<noteq> [] \<and> remoteTarget remote_c = lit ''c:y''
   \<and> 58 \<notin> set (path remote_blank) \<and> name remote_blank = []
   \<and> truthy (rclonePath (settings plugin_ex)) \<and> truthy (getBasePath env_ex)
   \<and> runRcloneSync env_ex plugin_ex remote_blank
       = (plugin_ex \<lparr> trace := trace plugin_ex @ [Invoke remote_blank] \<rparr>, Inl (Error msg_no_remote))"
proof -
  have a: "58 \<in> set (path remote_a)" "path remote_a = lit ''a:v''" by code_simp+
  have c: "58 \<notin> set (path remote_c)" "name remote_c \<noteq> []"
     "name remote_c @ [58] @ path remote_c = lit ''c:y''" by code_simp+
  have b: "58 \<notin> set (path remote_blank)" "name remote_blank = []" by code_simp+
  have ok: "truthy (rclonePath (settings plugin_ex))" "truthy (getBasePath env_ex)" by code_simp+
  note ta = remote_address_resolution [of remote_a]
  note tc = remote_address_resolution [of remote_c]
  note tb = remote_address_resolution [of remote_blank env_ex plugin_ex]
  have "remoteTarget remote_a = lit ''a:v''" using ta a by simp
  moreover have "remoteTarget remote_c = lit ''c:y''" using tc c by simp
  moreover have "runRcloneSync env_ex plugin_ex remote_blank
       = (plugin_ex \<lparr> trace := trace plugin_ex @ [Invoke remote_blank] \<rparr>, Inl (Error msg_no_remote))"
    using tb b ok by auto
  ultimately show ?thesis using a c b ok by simp
qed

text \<open>
  C10. A remote with a non-empty name and an empty path has the address name and colon,
  which is not empty. With the executable path and the vault path there, the runner
  rejects before spawning with the error about the remote exactly when the name is empty
  and the path holds no colon; for a named remote with an empty path it spawns the child
  on that address.
\<close>

theorem named_remote_with_empty_path:
  assumes "truthy (rclonePath (settings p))" and "truthy (getBasePath e)"
  shows "(name r \<noteq> [] \<and> path r = [] \<longrightarrow>
            remoteTarget r = name r @ [58] \<and> remoteTarget r \<noteq> []
            \<and> new_events p (fst (runRcloneSync e p r))
                = [Invoke r, Spawn (cmd_for e p r), Exit (child e (trace p @ [Invoke r]) (cmd_for e p r))]
            \<and> argv (cmd_for e p r) ! 2 = name r @ [58])
    \<and> ((runRcloneSync e p r = (p \<lparr> trace := trace p @ [Invoke r] \<rparr>, Inl (Error msg_no_remote)))
         = (name r = [] \<and> 58 \<notin> set (path r)))
    \<and> ((remoteTarget r = []) = (name r = [] \<and> 58 \<notin> set (path r)))"
proof -
  have named: "remoteTarget r = name r @ [58] \<and> remoteTarget r \<noteq> []
            \<and> new_events p (fst (runRcloneSync e p r))
                = [Invoke r, Spawn (cmd_for e p r), Exit (child e (trace p @ [Invoke r]) (cmd_for e p r))]
            \<and> argv (cmd_for e p r) ! 2 = name r @ [58]"
    if n: "name r \<noteq> []" "path r = []"
  proof -
    have t: "remoteTarget r = name r @ [58]" using n by (simp add: remoteTarget_def)
    then have ne: "remoteTarget r \<noteq> []" by simp
    show ?thesis
      using runRcloneSync_spawns [OF assms ne] t
      by (simp add: new_events_def cmd_for_def)
  qed
  have iff: "(runRcloneSync e p r = (p \<lparr> trace := trace p @ [Invoke r] \<rparr>, Inl (Error msg_no_remote)))
         = (remoteTarget r = [])"
  proof (cases "remoteTarget r = []")
    case True
    then show ?thesis using assms unfolding runRcloneSync_def Let_def by simp
  next
    case False
    have "trace (fst (runRcloneSync e p r)) \<noteq> trace (p \<lparr> trace := trace p @ [Invoke r] \<rparr>)"
      using runRcloneSync_spawns [OF assms False] by simp
    then have "runRcloneSync e p r \<noteq> (p \<lparr> trace := trace p @ [Invoke r] \<rparr>, Inl (Error msg_no_remote))"
      by (metis fst_conv)
    then show ?thesis using False by simp
  qed
  show ?thesis using named iff remoteTarget_empty_iff [of r] by blast
qed

theorem named_remote_with_empty_path_witness:
  "truthy (rclonePath (settings plugin_ex)) \<and> truthy (getBasePath env_ex)
   \<and> name remote_root \<noteq> [] \<and> path remote_root = []
   \<and> remoteTarget remote_root = name remote_root @ [58]
   \<and> argv (cmd_for env_ex plugin_ex remote_root) ! 2 = name remote_root @ [58]
   \<and> new_events plugin_ex (fst (runRcloneSync env_ex plugin_ex remote_root))
       = [Invoke remote_root, Spawn (cmd_for env_ex plugin_ex remote_root),
          Exit (child env_ex (trace plugin_ex @ [Invoke remote_root]) (cmd_for env_ex plugin_ex remote_root))]
   \<and> name remote_blank = [] \<and> 58 \<notin> set (path remote_blank)
   \<and> runRcloneSync env_ex plugin_ex remote_blank
       = (plugin_ex \<lparr> trace := trace plugin_ex @ [Invoke remote_blank] \<rparr>, Inl (Error msg_no_remote))"
proof -
  have ok: "truthy (rclonePath (settings plugin_ex))" "truthy (getBasePath env_ex)" by code_simp+
  have n: "name remote_root \<noteq> []" "path remote_root = []" by code_simp+
  have b: "name remote_blank = []" "58 \<notin> set (path remote_blank)" by code_simp+
  note a = named_remote_with_empty_path [OF ok, of remote_root]
  note c = named_remote_with_empty_path [OF ok, of remote_blank]
  show ?thesis using ok n b a c by simp
qed

lemma map_remote_run_results: "map remote (run_results e p) = enabledRemotes p"
  using sync_loop_results [of e "enabledRemotes p" "loop_start p" "[]"] by (auto simp: run_results_def)

text \<open>
  C6. Sequential order. In a run started while no run is in progress, the runner is
  called once for each enabled remote and for no other, in the order of the list
  (\<open>invoked\<close> of the new events is the list of the enabled remotes); no call of the
  runner and no spawn happens while a child is running, so the next call starts after the
  last child has exited; and the entries of \<open>results\<close> are for the enabled remotes in the
  same order.
\<close>

theorem sequential_order:
  assumes "\<not> isSyncing p"
  shows "invoked (new_events p (handleSync e p))
           = filter enable (case remotes (settings p) of None \<Rightarrow> [] | Some rs \<Rightarrow> rs)
    \<and> length (invoked (new_events p (handleSync e p))) = length (enabledRemotes p)
    \<and> one_at_a_time False (new_events p (handleSync e p))
    \<and> map remote (run_results e p) = invoked (new_events p (handleSync e p))"
  using handleSync_events [OF assms, of e] map_remote_run_results [of e p]
  by (simp add: enabledRemotes_def)

theorem sequential_order_witness:
  "\<not> isSyncing plugin_ex
   \<and> remotes (settings plugin_ex) = Some [remote_a, remote_b, remote_c]
   \<and> filter enable [remote_a, remote_b, remote_c] = [remote_a, remote_c]
   \<and> invoked (new_events plugin_ex (handleSync env_ex plugin_ex)) = [remote_a, remote_c]
   \<and> one_at_a_time False (new_events plugin_ex (handleSync env_ex plugin_ex))
   \<and> map remote (run_results env_ex plugin_ex) = [remote_a, remote_c]"
proof -
  have idle: "\<not> isSyncing plugin_ex" by code_simp
  have rs: "remotes (settings plugin_ex) = Some [remote_a, remote_b, remote_c]" by code_simp
  have en: "filter enable [remote_a, remote_b, remote_c] = [remote_a, remote_c]" by code_simp
  note a = sequential_order [OF idle, of env_ex]
  show ?thesis using idle rs en a by simp
qed



text \<open>
  C8. The spawn arguments. A command that one call of the runner spawns, and so every
  command spawned in a call of \<open>handleSync\<close>, has the executable path of the settings as
  its program, the five arguments \<open>bisync\<close>, the vault path, the remote's address,
  \<open>--verbose\<close> and \<open>--resync\<close> in this order, and the option \<open>shell\<close> set to false: the
  address is one argument, passed as it is. A call of the runner that passes the three
  checks spawns exactly one such command.
\<close>

theorem spawn_arguments:
  "(c \<in> set (spawned (new_events p (fst (runRcloneSync e p r)))) \<longrightarrow>
      exe c = or_empty (rclonePath (settings p))
      \<and> argv c = [lit ''bisync'', or_empty (getBasePath e), remoteTarget r,
                  lit ''--verbose'', lit ''--resync'']
      \<and> shell c = False)
   \<and> (c' \<in> set (spawned (new_events p (handleSync e p))) \<longrightarrow>
       (\<exists>r'. r' \<in> set (enabledRemotes p)
          \<and> exe c' = or_empty (rclonePath (settings p))
          \<and> argv c' = [lit ''bisync'', or_empty (getBasePath e), remoteTarget r',
                       lit ''--verbose'', lit ''--resync'']
          \<and> shell c' = False))
   \<and> (truthy (rclonePath (settings p)) \<and> truthy (getBasePath e) \<and> remoteTarget r \<noteq> [] \<longrightarrow>
        spawned (new_events p (fst (runRcloneSync e p r)))
          = [\<lparr> exe = or_empty (rclonePath (settings p)),
               argv = [lit ''bisync'', or_empty (getBasePath e), remoteTarget r,
                       lit ''--verbose'', lit ''--resync''],
               shell = False \<rparr>])"
proof -
  have valid: "spawned (new_events p (fst (runRcloneSync e p r)))
          = [\<lparr> exe = or_empty (rclonePath (settings p)),
               argv = [lit ''bisync'', or_empty (getBasePath e), remoteTarget r,
                       lit ''--verbose'', lit ''--resync''],
               shell = False \<rparr>]"
    if "truthy (rclonePath (settings p))" "truthy (getBasePath e)" "remoteTarget r \<noteq> []"
    using runRcloneSync_spawns [OF that] by (simp add: new_events_def cmd_for_def)
  have one: "c = cmd_for e p r" if "c \<in> set (spawned (new_events p (fst (runRcloneSync e p r))))"
    using that runRcloneSync_events [of e p r] by (auto simp: new_events_def)
  have all: "\<exists>r'. r' \<in> set (enabledRemotes p) \<and> c' = cmd_for e p r'"
    if c': "c' \<in> set (spawned (new_events p (handleSync e p)))"
  proof (cases "isSyncing p")
    case True
    then show ?thesis using c' by (simp add: handleSync_busy new_events_def)
  next
    case False
    then show ?thesis using c' handleSync_events [OF False, of e] by auto
  qed
  have form: "exe (cmd_for e p x) = or_empty (rclonePath (settings p))
      \<and> argv (cmd_for e p x) = [lit ''bisync'', or_empty (getBasePath e), remoteTarget x,
                  lit ''--verbose'', lit ''--resync'']
      \<and> shell (cmd_for e p x) = False" for x
    by (simp add: cmd_for_def)
  show ?thesis using one all form valid by blast
qed

theorem spawn_arguments_witness:
  "spawned (new_events plugin_ex (fst (runRcloneSync env_ex plugin_ex remote_shell)))
       = [\<lparr> exe = lit ''/usr/bin/rclone'',
            argv = [lit ''bisync'', lit ''/vault'', lit ''r:v; rm -rf $HOME'', lit ''--verbose'', lit ''--resync''],
            shell = False \<rparr>]
   \<and> argv (hd (spawned (new_events plugin_ex (fst (runRcloneSync env_ex plugin_ex remote_shell)))))
       = [lit ''bisync'', or_empty (getBasePath env_ex), remoteTarget remote_shell,
          lit ''--verbose'', lit ''--resync'']
   \<and> shell (hd (spawned (new_events plugin_ex (fst (runRcloneSync env_ex plugin_ex remote_shell))))) = False
   \<and> length (spawned (new_events plugin_ex (handleSync env_ex plugin_ex))) = 2
   \<and> (\<exists>r'. r' \<in> set (enabledRemotes plugin_ex)
         \<and> exe (spawned (new_events plugin_ex (handleSync env_ex plugin_ex)) ! 1)
             = or_empty (rclonePath (settings plugin_ex))
         \<and> argv (spawned (new_events plugin_ex (handleSync env_ex plugin_ex)) ! 1)
             = [lit ''bisync'', or_empty (getBasePath env_ex), remoteTarget r',
                lit ''--verbose'', lit ''--resync'']
         \<and> shell (spawned (new_events plugin_ex (handleSync env_ex plugin_ex)) ! 1) = False)"
proof -
  have one: "spawned (new_events plugin_ex (fst (runRcloneSync env_ex plugin_ex remote_shell)))
       = [\<lparr> exe = lit ''/usr/bin/rclone'',
            argv = [lit ''bisync'', lit ''/vault'', lit ''r:v; rm -rf $HOME'', lit ''--verbose'', lit ''--resync''],
            shell = False \<rparr>]" by code_simp
  have two: "length (spawned (new_events plugin_ex (handleSync env_ex plugin_ex))) = 2" by code_simp
  have in1: "hd (spawned (new_events plugin_ex (fst (runRcloneSync env_ex plugin_ex remote_shell))))
      \<in> set (spawned (new_events plugin_ex (fst (runRcloneSync env_ex plugin_ex remote_shell))))"
    unfolding one by simp
  have in2: "spawned (new_events plugin_ex (handleSync env_ex plugin_ex)) ! 1
      \<in> set (spawned (new_events plugin_ex (handleSync env_ex plugin_ex)))"
    using two by simp
  note a = spawn_arguments [of "hd (spawned (new_events plugin_ex (fst (runRcloneSync env_ex plugin_ex remote_shell))))"
      plugin_ex env_ex remote_shell "spawned (new_events plugin_ex (handleSync env_ex plugin_ex)) ! 1"]
  show ?thesis using one two in1 in2 a by blast
qed

lemma sync_loop_no_exe:
  assumes "\<not> truthy (rclonePath (settings p))"
  shows "trace (fst (sync_loop e rs (p, acc))) = trace p @ map Invoke rs"
  using assms
proof (induction rs arbitrary: p acc)
  case Nil
  show ?case by simp
next
  case (Cons r rs)
  obtain m where step: "runRcloneSync e p r = (p \<lparr> trace := trace p @ [Invoke r] \<rparr>, Inl (Error m))"
    using runRcloneSync_config_error [of p e r] Cons.prems by blast
  have "\<not> truthy (rclonePath (settings (p \<lparr> trace := trace p @ [Invoke r] \<rparr>)))"
    using Cons.prems by simp
  from Cons.IH [OF this] show ?case using step by simp
qed

lemma spawned_map_Invoke: "spawned (map Invoke rs) = []"
  by (induction rs) simp_all

lemma handleSync_no_exe:
  assumes "\<not> truthy (rclonePath (settings p))"
  shows "spawned (new_events p (handleSync e p)) = []"
proof (cases "isSyncing p")
  case True
  then show ?thesis by (simp add: handleSync_busy new_events_def)
next
  case idle: False
  show ?thesis
  proof (cases "enabledRemotes p = []")
    case True
    then show ?thesis using trace_handleSync_none [OF idle True, of e] by (simp add: new_events_def)
  next
    case False
    have "\<not> truthy (rclonePath (settings (loop_start p)))"
      using assms loop_start_fields [of p] by simp
    from sync_loop_no_exe [OF this, of e "enabledRemotes p" "[]"]
    have "trace (loop_end e p) = trace p @ map Invoke (enabledRemotes p)"
      using loop_start_fields [of p] by (simp add: loop_end_def)
    then show ?thesis
      using trace_handleSync_run [OF idle False, of e]
      by (simp add: new_events_def spawned_map_Invoke)
  qed
qed

lemma state_before_settings: "settings (state_before e p i) = settings p"
  using sync_loop_fields [of e "take i (enabledRemotes p)" "loop_start p" "[]"] loop_start_fields [of p]
  by (simp add: state_before_def)

text \<open>
  C3, as the code has it. With no enabled remote the run fails as a whole: the only
  notice is the failure notice with the error about enabling a remote, the status bar
  shows the failure text, and there is no event: the runner is not called and nothing is
  spawned. With no executable path, nothing is spawned in the whole run. A missing
  executable path or an empty address of the \<open>i\<close>-th enabled remote is found by the
  runner, before it spawns: its call is the only event for that remote, the entry for that
  remote in \<open>results\<close> is a failed one with one of the runner's three error messages, and
  the run ends with the report notice as any other run.
\<close>

theorem config_errors:
  "(\<not> isSyncing p \<and> enabledRemotes p = [] \<longrightarrow>
      notices (handleSync e p) = notices p @ [msg_sync_failed @ msg_none_enabled]
      \<and> new_events p (handleSync e p) = []
      \<and> statusBar (handleSync e p)
          = (case statusBar p of None \<Rightarrow> None | Some _ \<Rightarrow> Some (lit ''Rclone: '' @ status_failed)))
   \<and> (\<not> truthy (rclonePath (settings p)) \<longrightarrow> spawned (new_events p (handleSync e p)) = [])
   \<and> (\<not> isSyncing p \<and> i < length (enabledRemotes p)
        \<and> (\<not> truthy (rclonePath (settings p)) \<or> remoteTarget (enabledRemotes p ! i) = []) \<longrightarrow>
        (\<exists>m. (m = msg_no_rclone \<or> m = msg_no_vault \<or> m = msg_no_remote)
            \<and> run_results e p ! i = \<lparr> remote = enabledRemotes p ! i, success = False,
                                        summary = msg_failed @ m \<rparr>)
        \<and> new_events (state_before e p i)
              (fst (runRcloneSync e (state_before e p i) (enabledRemotes p ! i)))
            = [Invoke (enabledRemotes p ! i)]
        \<and> notices (handleSync e p)
            = notices p @ [report (batchDuration e (trace (loop_end e p))) (run_results e p)])"
proof -
  have none: "notices (handleSync e p) = notices p @ [msg_sync_failed @ msg_none_enabled]
      \<and> new_events p (handleSync e p) = []
      \<and> statusBar (handleSync e p)
          = (case statusBar p of None \<Rightarrow> None | Some _ \<Rightarrow> Some (lit ''Rclone: '' @ status_failed))"
    if idle: "\<not> isSyncing p" and empty: "enabledRemotes p = []"
    using handleSync_none [OF idle empty, of e] trace_handleSync_none [OF idle empty, of e]
      loop_start_fields [of p]
    by (simp add: Notice_def updateStatus_def new_events_def split: option.split)
  have target: "(\<exists>m. (m = msg_no_rclone \<or> m = msg_no_vault \<or> m = msg_no_remote)
            \<and> run_results e p ! i = \<lparr> remote = enabledRemotes p ! i, success = False,
                                        summary = msg_failed @ m \<rparr>)
        \<and> new_events (state_before e p i)
              (fst (runRcloneSync e (state_before e p i) (enabledRemotes p ! i)))
            = [Invoke (enabledRemotes p ! i)]
        \<and> notices (handleSync e p)
            = notices p @ [report (batchDuration e (trace (loop_end e p))) (run_results e p)]"
    if idle: "\<not> isSyncing p" and i: "i < length (enabledRemotes p)"
      and bad: "\<not> truthy (rclonePath (settings p)) \<or> remoteTarget (enabledRemotes p ! i) = []"
  proof -
    have ne: "enabledRemotes p \<noteq> []" using i by auto
    have bad': "\<not> truthy (rclonePath (settings (state_before e p i)))
        \<or> \<not> truthy (getBasePath e) \<or> remoteTarget (enabledRemotes p ! i) = []"
      using bad state_before_settings [of e p i] by auto
    obtain m where m: "runRcloneSync e (state_before e p i) (enabledRemotes p ! i)
          = ((state_before e p i) \<lparr> trace := trace (state_before e p i) @ [Invoke (enabledRemotes p ! i)] \<rparr>,
             Inl (Error m))"
        "m = msg_no_rclone \<or> m = msg_no_vault \<or> m = msg_no_remote"
      using runRcloneSync_config_error [OF bad'] by blast
    have "outcome e p i = Inl (Error m)" using m(1) by (simp add: outcome_def)
    then have "run_results e p ! i = \<lparr> remote = enabledRemotes p ! i, success = False,
                                        summary = msg_failed @ m \<rparr>"
      using run_results_nth [OF i, of e] by simp
    moreover have "new_events (state_before e p i)
              (fst (runRcloneSync e (state_before e p i) (enabledRemotes p ! i)))
            = [Invoke (enabledRemotes p ! i)]"
      using m(1) by (simp add: new_events_def)
    ultimately show ?thesis
      using m(2) notices_handleSync_run [OF idle ne, of e] by blast
  qed
  show ?thesis using none target handleSync_no_exe [of p e] by blast
qed

theorem config_errors_witness:
  "\<not> isSyncing plugin_none \<and> enabledRemotes plugin_none = []
   \<and> notices (handleSync env_ex plugin_none) = notices plugin_none @ [msg_sync_failed @ msg_none_enabled]
   \<and> new_events plugin_none (handleSync env_ex plugin_none) = []
   \<and> \<not> isSyncing plugin_noexe \<and> (0::nat) < length (enabledRemotes plugin_noexe)
   \<and> \<not> truthy (rclonePath (settings plugin_noexe))
   \<and> spawned (new_events plugin_noexe (handleSync env_ex plugin_noexe)) = []
   \<and> (\<exists>m. (m = msg_no_rclone \<or> m = msg_no_vault \<or> m = msg_no_remote)
          \<and> run_results env_ex plugin_noexe ! 0
              = \<lparr> remote = enabledRemotes plugin_noexe ! 0, success = False, summary = msg_failed @ m \<rparr>)
   \<and> notices (handleSync env_ex plugin_noexe)
       = notices plugin_noexe
           @ [report (batchDuration env_ex (trace (loop_end env_ex plugin_noexe)))
                (run_results env_ex plugin_noexe)]"
proof -
  have n: "\<not> isSyncing plugin_none" "enabledRemotes plugin_none = []" by code_simp+
  have x: "\<not> isSyncing plugin_noexe" "(0::nat) < length (enabledRemotes plugin_noexe)"
    "\<not> truthy (rclonePath (settings plugin_noexe))" by code_simp+
  note a = config_errors [of plugin_none env_ex]
  note b = config_errors [of plugin_noexe env_ex 0]
  show ?thesis using n x a b by blast
qed

text \<open>
  C3 as stated fails: with an empty executable path and one enabled remote, the run is
  attempted, a failed entry for the remote is recorded, and the run ends with the report
  notice, not with the failure notice of the error.
\<close>

theorem config_errors_counterexample:
  "\<not> truthy (rclonePath (settings plugin_noexe))
   \<and> \<not> isSyncing plugin_noexe
   \<and> run_results env_ex plugin_noexe
       = [\<lparr> remote = remote_a, success = False, summary = msg_failed @ msg_no_rclone \<rparr>]
   \<and> notices (handleSync env_ex plugin_noexe)
       = [report (lit ''0.8'') [\<lparr> remote = remote_a, success = False, summary = msg_failed @ msg_no_rclone \<rparr>]]
   \<and> notices (handleSync env_ex plugin_noexe) \<noteq> [msg_sync_failed @ msg_no_rclone]"
  by code_simp

lemma load_from_migrates:
  assumes "d_remotes d = Absent \<or> d_remotes d = Null \<or> d_remotes d = Val []"
    and "truthy (read_field (d_remoteName d)) \<or> truthy (read_field (d_remotePath d))"
  shows "load_from (Some d) =
     \<lparr> rclonePath = assign_field (Some []) (d_rclonePath d),
       remotes = Some [\<lparr> name = or_empty (read_field (d_remoteName d)),
                         path = or_empty (read_field (d_remotePath d)), enable = True \<rparr>],
       remoteName = d_remoteName d, remotePath = d_remotePath d \<rparr>"
  using assms by (auto simp: load_from_def DEFAULT_SETTINGS_def Let_def)

text \<open>
  C9, as the code has it. When the stored \<open>remotes\<close> is missing, \<open>null\<close> or empty and one
  of the older fields holds a non-empty string, the loaded \<open>remotes\<close> is the single
  enabled remote made of the two older fields, a missing one taken as the empty string.
  When the stored \<open>remotes\<close> is non-empty it is loaded as it is. When neither older field
  holds a non-empty string, nothing is synthesised. Loading leaves the stored data as it
  is, and a later save writes the older fields back unchanged. The migration is not done
  once only: it is done at every load at which the condition holds. After a migration,
  deleting the synthesised remote (which saves an empty \<open>remotes\<close> beside the older fields)
  and loading again synthesises the same remote again.
\<close>

theorem legacy_migration:
  assumes "dataFile p = Some d"
  shows "((d_remotes d = Absent \<or> d_remotes d = Null \<or> d_remotes d = Val [])
          \<and> (truthy (read_field (d_remoteName d)) \<or> truthy (read_field (d_remotePath d))) \<longrightarrow>
          remotes (settings (loadSettings p))
            = Some [\<lparr> name = or_empty (read_field (d_remoteName d)),
                      path = or_empty (read_field (d_remotePath d)), enable = True \<rparr>]
          \<and> dataFile (deleteRemote 0 (loadSettings p))
              = Some \<lparr> d_rclonePath = to_field (assign_field (Some []) (d_rclonePath d)),
                       d_remotes = Val [],
                       d_remoteName = d_remoteName d, d_remotePath = d_remotePath d \<rparr>
          \<and> remotes (settings (deleteRemote 0 (loadSettings p))) = Some []
          \<and> remotes (settings (loadSettings (deleteRemote 0 (loadSettings p))))
              = Some [\<lparr> name = or_empty (read_field (d_remoteName d)),
                        path = or_empty (read_field (d_remotePath d)), enable = True \<rparr>])
    \<and> (\<forall>rs. d_remotes d = Val rs \<and> rs \<noteq> [] \<longrightarrow> remotes (settings (loadSettings p)) = Some rs)
    \<and> (\<not> truthy (read_field (d_remoteName d)) \<and> \<not> truthy (read_field (d_remotePath d)) \<longrightarrow>
          remotes (settings (loadSettings p)) = assign_field (Some []) (d_remotes d))
    \<and> dataFile (loadSettings p) = dataFile p
    \<and> (\<exists>d'. dataFile (saveSettings (loadSettings p)) = Some d'
             \<and> d_remoteName d' = d_remoteName d \<and> d_remotePath d' = d_remotePath d)"
proof -
  have again: "remotes (settings (loadSettings p))
            = Some [\<lparr> name = or_empty (read_field (d_remoteName d)),
                      path = or_empty (read_field (d_remotePath d)), enable = True \<rparr>]
          \<and> dataFile (deleteRemote 0 (loadSettings p))
              = Some \<lparr> d_rclonePath = to_field (assign_field (Some []) (d_rclonePath d)),
                       d_remotes = Val [],
                       d_remoteName = d_remoteName d, d_remotePath = d_remotePath d \<rparr>
          \<and> remotes (settings (deleteRemote 0 (loadSettings p))) = Some []
          \<and> remotes (settings (loadSettings (deleteRemote 0 (loadSettings p))))
              = Some [\<lparr> name = or_empty (read_field (d_remoteName d)),
                        path = or_empty (read_field (d_remotePath d)), enable = True \<rparr>]"
    if empty: "d_remotes d = Absent \<or> d_remotes d = Null \<or> d_remotes d = Val []"
      and legacy: "truthy (read_field (d_remoteName d)) \<or> truthy (read_field (d_remotePath d))"
  proof -
    let ?d' = "\<lparr> d_rclonePath = to_field (assign_field (Some []) (d_rclonePath d)),
                 d_remotes = Val ([] :: RcloneRemote list),
                 d_remoteName = d_remoteName d, d_remotePath = d_remotePath d \<rparr>"
    have first: "settings (loadSettings p) = load_from (Some d)"
      using assms by (simp add: loadSettings_def)
    have stored: "dataFile (deleteRemote 0 (loadSettings p)) = Some ?d'"
      and gone: "remotes (settings (deleteRemote 0 (loadSettings p))) = Some []"
      using first load_from_migrates [OF empty legacy]
      by (simp_all add: deleteRemote_def saveSettings_def)
    have "settings (loadSettings (deleteRemote 0 (loadSettings p))) = load_from (Some ?d')"
      using stored by (simp add: loadSettings_def)
    moreover have "load_from (Some ?d') =
       \<lparr> rclonePath = assign_field (Some []) (d_rclonePath ?d'),
         remotes = Some [\<lparr> name = or_empty (read_field (d_remoteName ?d')),
                         path = or_empty (read_field (d_remotePath ?d')), enable = True \<rparr>],
         remoteName = d_remoteName ?d', remotePath = d_remotePath ?d' \<rparr>"
      using legacy by (intro load_from_migrates) simp_all
    ultimately show ?thesis
      using first load_from_migrates [OF empty legacy] stored gone by simp
  qed
  have rest: "(\<forall>rs. d_remotes d = Val rs \<and> rs \<noteq> [] \<longrightarrow> remotes (settings (loadSettings p)) = Some rs)
    \<and> (\<not> truthy (read_field (d_remoteName d)) \<and> \<not> truthy (read_field (d_remotePath d)) \<longrightarrow>
          remotes (settings (loadSettings p)) = assign_field (Some []) (d_remotes d))
    \<and> dataFile (loadSettings p) = dataFile p
    \<and> (\<exists>d'. dataFile (saveSettings (loadSettings p)) = Some d'
             \<and> d_remoteName d' = d_remoteName d \<and> d_remotePath d' = d_remotePath d)"
    using assms
    by (cases "d_remotes d")
       (auto simp: loadSettings_def saveSettings_def load_from_def DEFAULT_SETTINGS_def Let_def)
  show ?thesis using again rest by blast
qed

theorem legacy_migration_witness:
  "dataFile plugin_legacy = Some data_legacy
   \<and> d_remotes data_legacy = Absent \<and> truthy (read_field (d_remoteName data_legacy))
   \<and> remotes (settings (loadSettings plugin_legacy)) = Some [remote_legacy]
   \<and> dataFile (loadSettings plugin_legacy) = Some data_legacy
   \<and> remotes (settings (deleteRemote 0 (loadSettings plugin_legacy))) = Some []
   \<and> remotes (settings (loadSettings (deleteRemote 0 (loadSettings plugin_legacy))))
       = Some [remote_legacy]
   \<and> dataFile (plugin_ex \<lparr> dataFile := Some data_current \<rparr>) = Some data_current
   \<and> d_remotes data_current = Val [remote_c] \<and> [remote_c] \<noteq> []
   \<and> remotes (settings (loadSettings (plugin_ex \<lparr> dataFile := Some data_current \<rparr>))) = Some [remote_c]"
proof -
  have l: "dataFile plugin_legacy = Some data_legacy"
    "d_remotes data_legacy = Absent" "truthy (read_field (d_remoteName data_legacy))"
    "\<lparr> name = or_empty (read_field (d_remoteName data_legacy)),
       path = or_empty (read_field (d_remotePath data_legacy)), enable = True \<rparr> = remote_legacy"
    by code_simp+
  have c: "dataFile (plugin_ex \<lparr> dataFile := Some data_current \<rparr>) = Some data_current"
    "d_remotes data_current = Val [remote_c]" by code_simp+
  note a = legacy_migration [OF l(1)]
  note b = legacy_migration [OF c(1)]
  show ?thesis using l c a b by simp
qed

text \<open>
  C9 as stated fails twice. The older version stores both of its fields as empty strings
  until they are filled in; they are present, and nothing is synthesised from them. And
  the migration is not done once: after the migrated remote is deleted in the settings
  tab, the stored \<open>remotes\<close> is empty beside the older fields, and the next load
  synthesises the remote again.
\<close>

theorem legacy_migration_counterexample:
  "d_remotes data_blank = Absent
   \<and> d_remoteName data_blank = Val [] \<and> d_remotePath data_blank = Val []
   \<and> remotes (settings (loadSettings (plugin_ex \<lparr> dataFile := Some data_blank \<rparr>))) = Some []
   \<and> remotes (settings (loadSettings (plugin_ex \<lparr> dataFile := Some data_blank \<rparr>)))
       \<noteq> Some [\<lparr> name = [], path = [], enable = True \<rparr>]
   \<and> remotes (settings (loadSettings plugin_legacy)) = Some [remote_legacy]
   \<and> dataFile (deleteRemote 0 (loadSettings plugin_legacy))
       = Some \<lparr> d_rclonePath = Val (lit ''/usr/bin/rclone''), d_remotes = Val [],
                d_remoteName = Val (lit ''onedrive''), d_remotePath = Val (lit ''vault'') \<rparr>
   \<and> remotes (settings (deleteRemote 0 (loadSettings plugin_legacy))) = Some []
   \<and> remotes (settings (loadSettings (deleteRemote 0 (loadSettings plugin_legacy))))
       = Some [remote_legacy]"
  by code_simp

section \<open>Properties of the matcher\<close>

lemma star_rests_length: "t \<in> set (star_rests k s) \<Longrightarrow> length t \<le> length s"
  by (induction s) (auto split: if_splits)

lemma in_rmatch_Seq:
  "((t, c') \<in> set (rmatch (Seq a b) s c))
   = (\<exists>u c1. (u, c1) \<in> set (rmatch a s c) \<and> (t, c') \<in> set (rmatch b u c1))"
  by auto

lemma in_rmatch_Grp:
  "((t, c') \<in> set (rmatch (Grp i a) s c))
   = (\<exists>c1. (t, c1) \<in> set (rmatch a s c) \<and> c' = (i, take (length s - length t) s) # c1)"
  by auto

lemma rmatch_length: "(t, c') \<in> set (rmatch r s c) \<Longrightarrow> length t \<le> length s"
proof (induction r arbitrary: s c t c')
  case Eps
  then show ?case by simp
next
  case (Ch k)
  then show ?case by (cases s) (auto split: if_splits)
next
  case (Star k)
  then show ?case by (auto dest: star_rests_length)
next
  case (Plus k)
  then show ?case by (cases s) (auto split: if_splits dest: star_rests_length)
next
  case (Opt k)
  then show ?case by (cases s) (auto split: if_splits)
next
  case (Seq a b)
  from Seq.prems obtain u c1 where u: "(u, c1) \<in> set (rmatch a s c)" "(t, c') \<in> set (rmatch b u c1)"
    unfolding in_rmatch_Seq by blast
  have "length u \<le> length s" using Seq.IH(1) [OF u(1)] .
  moreover have "length t \<le> length u" using Seq.IH(2) [OF u(2)] .
  ultimately show ?case by simp
next
  case (Alt a b)
  then show ?case by auto
next
  case (Grp i a)
  then show ?case unfolding in_rmatch_Grp by blast
qed

lemma rmatch_Ch_caps: "(t, c') \<in> set (rmatch (Ch k) s c) \<Longrightarrow> c' = c \<and> length t < length s"
  by (cases s) (auto split: if_splits)

lemma rmatch_Star_caps: "(t, c') \<in> set (rmatch (Star k) s c) \<Longrightarrow> c' = c"
  by auto

lemma rmatch_Opt_caps: "(t, c') \<in> set (rmatch (Opt k) s c) \<Longrightarrow> c' = c"
  by (cases s) (auto split: if_splits)

lemma rmatch_Plus_caps: "(t, c') \<in> set (rmatch (Plus k) s c) \<Longrightarrow> c' = c \<and> length t < length s"
  by (cases s) (auto split: if_splits dest: star_rests_length)

lemma rmatch_pat:
  "rmatch (pat ks) s c = (if starts_with ks s then [(drop (length ks) s, c)] else [])"
proof (induction ks arbitrary: s)
  case Nil
  show ?case by (simp add: pat_def)
next
  case (Cons k ks)
  show ?case
  proof (cases ks)
    case Nil
    then show ?thesis by (cases s) (simp_all add: pat_def)
  next
    case (Cons k' ks')
    have step: "rmatch (pat (k # ks)) s c
        = concat (map (\<lambda>(t, c'). rmatch (pat ks) t c') (rmatch (Ch k) s c))"
      using Cons by (simp add: pat_def)
    show ?thesis
      unfolding step by (cases s) (simp_all add: Cons.IH)
  qed
qed

lemma rsearch_Some:
  "rsearch r s = Some m \<Longrightarrow> \<exists>s' t. (t, m) \<in> set (rmatch r s' [])"
proof (induction s)
  case Nil
  then obtain a as where "rmatch r [] [] = (a, m) # as"
    by (auto split: list.splits)
  then have "(a, m) \<in> set (rmatch r [] [])" by simp
  then show ?case by blast
next
  case (Cons x xs)
  show ?case
  proof (cases "rmatch r (x # xs) []")
    case Nil
    then show ?thesis using Cons by simp
  next
    case (Cons a as)
    then have "(fst a, m) \<in> set (rmatch r (x # xs) [])"
      using Cons.prems by (cases a) auto
    then show ?thesis by blast
  qed
qed

lemma rtest_Nil: "rtest r [] = (rmatch r [] [] \<noteq> [])"
  by (simp add: rtest_def split: list.split)

lemma rtest_Cons: "rtest r (x # xs) = (rmatch r (x # xs) [] \<noteq> [] \<or> rtest r xs)"
  by (simp add: rtest_def split: list.split)

lemma rmatch_noChangesRe:
  "(rmatch noChangesRe s c \<noteq> [])
   = (starts_with phrase_no_changes s \<or> starts_with phrase_up_to_date s
      \<or> starts_with phrase_nothing_to_do s)"
  by (simp add: noChangesRe_def rmatch_pat)

lemma rtest_noChangesRe: "rtest noChangesRe s = has_marker s"
proof (induction s)
  case Nil
  show ?case by (simp add: rtest_Nil rmatch_noChangesRe has_marker_def)
next
  case (Cons x xs)
  then show ?case by (auto simp: rtest_Cons rmatch_noChangesRe has_marker_def)
qed

lemma amount_shorter:
  assumes "(t, c') \<in> set (rmatch amount s c)"
  shows "c' = c \<and> length t < length s"
proof -
  from assms obtain u1 u2 u3 u4 c1 c2 c3 c4 where
    m: "(u1, c1) \<in> set (rmatch (Plus DigitDot) s c)"
       "(u2, c2) \<in> set (rmatch (Star Space) u1 c1)"
       "(u3, c3) \<in> set (rmatch (Star Word) u2 c2)"
       "(u4, c4) \<in> set (rmatch (Opt (CI 105)) u3 c3)"
       "(t, c') \<in> set (rmatch (Ch (CI 66)) u4 c4)"
    unfolding amount_def seqs.simps in_rmatch_Seq by blast
  have "c' = c"
    using rmatch_Plus_caps [OF m(1)] rmatch_Star_caps [OF m(2)] rmatch_Star_caps [OF m(3)]
      rmatch_Opt_caps [OF m(4)] rmatch_Ch_caps [OF m(5)] by simp
  moreover have "length t < length s"
    using rmatch_Plus_caps [OF m(1)] rmatch_length [OF m(2)] rmatch_length [OF m(3)]
      rmatch_length [OF m(4)] rmatch_length [OF m(5)] by simp
  ultimately show ?thesis by simp
qed

lemma sizeLine_groups:
  assumes "(t, m) \<in> set (rmatch sizeLineRe s [])"
  shows "\<exists>g. group m 1 = Some g \<and> g \<noteq> []"
proof -
  from assms obtain u1 u2 u3 u4 u5 u6 c1 c2 c3 c4 c5 c6 where
    m: "(u1, c1) \<in> set (rmatch (pat (ci ''Transferred:'')) s [])"
       "(u2, c2) \<in> set (rmatch (Star Space) u1 c1)"
       "(u3, c3) \<in> set (rmatch (Grp 1 amount) u2 c2)"
       "(u4, c4) \<in> set (rmatch (Star Space) u3 c3)"
       "(u5, c5) \<in> set (rmatch (Ch (CI 47)) u4 c4)"
       "(u6, c6) \<in> set (rmatch (Star Space) u5 c5)"
       "(t, m) \<in> set (rmatch (Grp 2 amount) u6 c6)"
    unfolding sizeLineRe_def seqs.simps in_rmatch_Seq by blast
  from m(3) obtain d3 where g1: "(u3, d3) \<in> set (rmatch amount u2 c2)"
      "c3 = (1, take (length u2 - length u3) u2) # d3"
    unfolding in_rmatch_Grp by blast
  from m(7) obtain d7 where g2: "(t, d7) \<in> set (rmatch amount u6 c6)"
      "m = (2, take (length u6 - length t) u6) # d7"
    unfolding in_rmatch_Grp by blast
  have c6: "c6 = c3"
    using rmatch_Star_caps [OF m(4)] rmatch_Ch_caps [OF m(5)] rmatch_Star_caps [OF m(6)] by simp
  have d7: "d7 = c6" using amount_shorter [OF g2(1)] by simp
  have "group m 1 = Some (take (length u2 - length u3) u2)"
    using g1(2) g2(2) c6 d7 by (simp add: group_def)
  moreover have "take (length u2 - length u3) u2 \<noteq> []"
    using amount_shorter [OF g1(1)] by auto
  ultimately show ?thesis by blast
qed

lemma digits_line_groups:
  assumes "(t, m) \<in> set (rmatch (seqs [pat ks, Star Space, Grp 1 (Plus Digit), Star Space,
                       Ch (CI 47), Star Space, Grp 2 (Plus Digit)]) s [])"
  shows "\<exists>a b. group m 1 = Some a \<and> group m 2 = Some b"
proof -
  from assms obtain u1 u2 u3 u4 u5 u6 c1 c2 c3 c4 c5 c6 where
    m: "(u3, c3) \<in> set (rmatch (Grp 1 (Plus Digit)) u2 c2)"
       "(u4, c4) \<in> set (rmatch (Star Space) u3 c3)"
       "(u5, c5) \<in> set (rmatch (Ch (CI 47)) u4 c4)"
       "(u6, c6) \<in> set (rmatch (Star Space) u5 c5)"
       "(t, m) \<in> set (rmatch (Grp 2 (Plus Digit)) u6 c6)"
    unfolding seqs.simps in_rmatch_Seq by blast
  from m(1) obtain d3 where g1: "c3 = (1, take (length u2 - length u3) u2) # d3"
    unfolding in_rmatch_Grp by blast
  from m(5) obtain d7 where g2: "(t, d7) \<in> set (rmatch (Plus Digit) u6 c6)"
      "m = (2, take (length u6 - length t) u6) # d7"
    unfolding in_rmatch_Grp by blast
  have c6: "c6 = c3"
    using rmatch_Star_caps [OF m(2)] rmatch_Ch_caps [OF m(3)] rmatch_Star_caps [OF m(4)] by simp
  have d7: "d7 = c6" using rmatch_Plus_caps [OF g2(1)] by simp
  show ?thesis using g1 g2(2) c6 d7 by (simp add: group_def)
qed

lemma transferredSize_nonempty: "transferredSize s = Some sz \<Longrightarrow> sz \<noteq> []"
proof -
  assume a: "transferredSize s = Some sz"
  then obtain m where m: "rsearch sizeLineRe s = Some m" "group m 1 = Some sz"
    by (auto simp: transferredSize_def split: option.splits)
  obtain s' t where "(t, m) \<in> set (rmatch sizeLineRe s' [])"
    using rsearch_Some [OF m(1)] by blast
  from sizeLine_groups [OF this] m(2) show ?thesis by auto
qed

lemma transferredFiles_None: "(transferredFiles s = None) = (rsearch countLineRe s = None)"
proof (cases "rsearch countLineRe s")
  case None
  then show ?thesis by (simp add: transferredFiles_def)
next
  case (Some m)
  obtain s' t where "(t, m) \<in> set (rmatch countLineRe s' [])"
    using rsearch_Some [OF Some] by blast
  from digits_line_groups [OF this [unfolded countLineRe_def]] Some
  show ?thesis by (auto simp: transferredFiles_def)
qed

lemma checks_known:
  "(rsearch checksLineRe s \<noteq> None) = (\<exists>a b. checksDone s = Some a \<and> checksTotal s = Some b)"
proof (cases "rsearch checksLineRe s")
  case None
  then show ?thesis by (simp add: checksDone_def)
next
  case (Some m)
  obtain s' t where "(t, m) \<in> set (rmatch checksLineRe s' [])"
    using rsearch_Some [OF Some] by blast
  from digits_line_groups [OF this [unfolded checksLineRe_def]] Some
  show ?thesis by (auto simp: checksDone_def checksTotal_def)
qed

lemma checksPart_cases:
  "checksPart big s = (case (checksDone s, checksTotal s) of
                     (Some a, Some b) \<Rightarrow>
                        lit '', checks '' @ show_num big a @ lit ''/'' @ show_num big b
                   | _ \<Rightarrow> [])"
proof (cases "rsearch checksLineRe s = None")
  case True
  then show ?thesis by (simp add: checksPart_def checksDone_def)
next
  case False
  then obtain a b where "checksDone s = Some a" "checksTotal s = Some b"
    using checks_known [of s] by blast
  then show ?thesis using False by (simp add: checksPart_def)
qed

lemma digits_value_snoc: "digits_value (ds @ [d]) = 10 * digits_value ds + (d - 48)"
  by (simp add: digits_value_def)

lemma digits_value_decimal: "0 \<le> n \<Longrightarrow> digits_value (decimal n) = n"
proof (induction n rule: decimal.induct)
  case (1 n)
  show ?case
  proof (cases "n < 10")
    case True
    then show ?thesis by (simp add: decimal.simps [of n] digits_value_def)
  next
    case False
    have "digits_value (decimal (n div 10)) = n div 10"
      using "1.IH" [OF False] "1.prems" by simp
    then show ?thesis
      using False by (simp add: decimal.simps [of n] digits_value_snoc)
  qed
qed

lemma parseInt10_zero: "(parseInt10 ds = Exact 0) = (digits_value ds = 0)"
  by (simp add: parseInt10_def)

text \<open>
  C5. The decision policy of the parser. The marker test of the code holds exactly when
  one of the three phrases occurs in the text (letters without regard to case) or the
  count of transferred files was extracted and is 0. When it holds, the summary is the
  up-to-date form, whatever else matched. Otherwise, when a size was captured, the size is
  not empty and the summary is the count of files (when one was extracted), the size, the
  elapsed time and the checks (when they were extracted, both numbers together).
  Otherwise the summary is the plain done form. \<open>summary_of\<close> is a total function: there
  is no input on which it fails. A number below \<open>2^53\<close> is printed as the decimal numeral
  of its value (reading \<open>decimal n\<close> back gives \<open>n\<close>); a larger one as the engine prints
  it.
\<close>

theorem parser_decision_policy:
  "noChanges combined = (has_marker combined \<or> transferredFiles combined = Some (Exact 0))
   \<and> (noChanges combined \<longrightarrow> summary_of big combined d = msg_uptodate @ d @ lit ''s)'')
   \<and> (\<not> noChanges combined \<and> transferredSize combined = Some sz \<longrightarrow>
        sz \<noteq> []
        \<and> summary_of big combined d =
            (case transferredFiles combined of
               None \<Rightarrow> []
             | Some n \<Rightarrow> show_num big n @ lit '' files, '')
            @ sz @ msg_elapsed @ d @ lit ''s''
            @ (case (checksDone combined, checksTotal combined) of
                 (Some a, Some b) \<Rightarrow>
                    lit '', checks '' @ show_num big a @ lit ''/'' @ show_num big b
               | _ \<Rightarrow> [])
            @ lit '')'')
   \<and> (\<not> noChanges combined \<and> transferredSize combined = None \<longrightarrow>
        summary_of big combined d = msg_done @ d @ lit ''s)'')
   \<and> ((checksDone combined = None) = (checksTotal combined = None))
   \<and> (0 \<le> n \<longrightarrow> show_num big (Exact n) = decimal n \<and> digits_value (decimal n) = n)
   \<and> (parseInt10 ds = Exact n \<longrightarrow> n = digits_value ds \<and> n < 9007199254740992)
   \<and> (parseInt10 ds = Rounded ds' \<longrightarrow>
        ds' = ds \<and> 9007199254740992 \<le> digits_value ds \<and> show_num big (Rounded ds') = big ds)"
proof -
  have marker: "noChanges combined = (has_marker combined \<or> transferredFiles combined = Some (Exact 0))"
    by (auto simp: noChanges_def rtest_noChangesRe)
  have up: "noChanges combined \<Longrightarrow> summary_of big combined d = msg_uptodate @ d @ lit ''s)''"
    by (simp add: summary_of_def)
  have sized: "sz \<noteq> []
        \<and> summary_of big combined d =
            (case transferredFiles combined of
               None \<Rightarrow> []
             | Some n \<Rightarrow> show_num big n @ lit '' files, '')
            @ sz @ msg_elapsed @ d @ lit ''s''
            @ (case (checksDone combined, checksTotal combined) of
                 (Some a, Some b) \<Rightarrow>
                    lit '', checks '' @ show_num big a @ lit ''/'' @ show_num big b
               | _ \<Rightarrow> [])
            @ lit '')''"
    if no: "\<not> noChanges combined" and sz: "transferredSize combined = Some sz"
  proof -
    have ne: "sz \<noteq> []" using transferredSize_nonempty [OF sz] .
    have files: "(if filesPart big combined \<noteq> [] then filesPart big combined @ lit '', '' else [])
        = (case transferredFiles combined of
             None \<Rightarrow> []
           | Some n \<Rightarrow> show_num big n @ lit '' files, '')"
      by (cases "transferredFiles combined") (simp_all add: filesPart_def lit_def)
    have "summary_of big combined d =
        (if filesPart big combined \<noteq> [] then filesPart big combined @ lit '', '' else [])
        @ sz @ msg_elapsed @ d @ lit ''s'' @ checksPart big combined @ lit '')''"
      using no sz ne by (simp add: summary_of_def)
    then show ?thesis using ne files checksPart_cases [of big combined] by simp
  qed
  have plain: "summary_of big combined d = msg_done @ d @ lit ''s)''"
    if "\<not> noChanges combined" and "transferredSize combined = None"
    using that by (simp add: summary_of_def)
  have both: "(checksDone combined = None) = (checksTotal combined = None)"
    using checks_known [of combined]
    by (cases "rsearch checksLineRe combined") (auto simp: checksDone_def checksTotal_def)
  have exact: "parseInt10 ds = Exact n \<Longrightarrow> n = digits_value ds \<and> n < 9007199254740992"
    by (auto simp: parseInt10_def split: if_splits)
  have rounded: "parseInt10 ds = Rounded ds' \<Longrightarrow>
        ds' = ds \<and> 9007199254740992 \<le> digits_value ds \<and> show_num big (Rounded ds') = big ds"
    by (auto simp: parseInt10_def split: if_splits)
  have printed: "0 \<le> n \<Longrightarrow> show_num big (Exact n) = decimal n \<and> digits_value (decimal n) = n"
    using digits_value_decimal [of n] by simp
  show ?thesis using marker up sized plain both exact rounded printed by blast
qed

theorem parser_decision_policy_witness:
  "noChanges out_uptodate \<and> transferredSize out_uptodate = Some (lit ''2 KiB'')
   \<and> summary_of (numberText env_ex) out_uptodate (lit ''0.5'') = msg_uptodate @ lit ''0.5'' @ lit ''s)''
   \<and> \<not> has_marker out_zero \<and> transferredFiles out_zero = Some (Exact 0) \<and> noChanges out_zero
   \<and> summary_of (numberText env_ex) out_zero (lit ''0.4'') = msg_uptodate @ lit ''0.4'' @ lit ''s)''
   \<and> \<not> noChanges out_transfer \<and> transferredSize out_transfer = Some (lit ''1.5 MiB'')
   \<and> transferredFiles out_transfer = Some (Exact 3)
   \<and> checksDone out_transfer = Some (Exact 10) \<and> checksTotal out_transfer = Some (Exact 12)
   \<and> summary_of (numberText env_ex) out_transfer (lit ''1.2'')
       = lit ''3 files, '' @ lit ''1.5 MiB'' @ msg_elapsed @ lit ''1.2'' @ lit ''s''
         @ lit '', checks 10/12'' @ lit '')''
   \<and> \<not> noChanges out_big \<and> transferredSize out_big = Some (lit ''1 KiB'')
   \<and> transferredFiles out_big = Some (Rounded (lit ''1000000000000000000000''))
   \<and> summary_of (numberText env_ex) out_big (lit ''0.2'')
       = lit ''1e+21 files, '' @ lit ''1 KiB'' @ msg_elapsed @ lit ''0.2'' @ lit ''s'' @ [] @ lit '')''
   \<and> \<not> noChanges out_other \<and> transferredSize out_other = None
   \<and> summary_of (numberText env_ex) out_other (lit ''0.1'') = msg_done @ lit ''0.1'' @ lit ''s)''
   \<and> (0::int) \<le> 1203 \<and> decimal 1203 = lit ''1203'' \<and> digits_value (decimal 1203) = 1203
   \<and> parseInt10 (lit ''007'') = Exact 7
   \<and> parseInt10 (lit ''9007199254740993'') = Rounded (lit ''9007199254740993'')"
proof -
  have u: "noChanges out_uptodate" "transferredSize out_uptodate = Some (lit ''2 KiB'')"
    by code_simp+
  have z: "\<not> has_marker out_zero" "transferredFiles out_zero = Some (Exact 0)" by code_simp+
  have t: "\<not> noChanges out_transfer" "transferredSize out_transfer = Some (lit ''1.5 MiB'')"
    "transferredFiles out_transfer = Some (Exact 3)"
    "checksDone out_transfer = Some (Exact 10)" "checksTotal out_transfer = Some (Exact 12)"
    by code_simp+
  have tf: "(case transferredFiles out_transfer of
               None \<Rightarrow> []
             | Some n \<Rightarrow> show_num (numberText env_ex) n @ lit '' files, '') = lit ''3 files, ''"
    by code_simp
  have tc: "(case (checksDone out_transfer, checksTotal out_transfer) of
                 (Some a, Some b) \<Rightarrow>
                    lit '', checks '' @ show_num (numberText env_ex) a @ lit ''/''
                      @ show_num (numberText env_ex) b
               | _ \<Rightarrow> []) = lit '', checks 10/12''"
    by code_simp
  have g: "\<not> noChanges out_big" "transferredSize out_big = Some (lit ''1 KiB'')"
    "transferredFiles out_big = Some (Rounded (lit ''1000000000000000000000''))"
    by code_simp+
  have gf: "(case transferredFiles out_big of
               None \<Rightarrow> []
             | Some n \<Rightarrow> show_num (numberText env_ex) n @ lit '' files, '') = lit ''1e+21 files, ''"
    by code_simp
  have gc: "(case (checksDone out_big, checksTotal out_big) of
                 (Some a, Some b) \<Rightarrow>
                    lit '', checks '' @ show_num (numberText env_ex) a @ lit ''/''
                      @ show_num (numberText env_ex) b
               | _ \<Rightarrow> []) = []"
    by code_simp
  have p: "\<not> noChanges out_other" "transferredSize out_other = None" by code_simp+
  have n: "(0::int) \<le> 1203" "decimal 1203 = lit ''1203''"
    "parseInt10 (lit ''007'') = Exact 7"
    "parseInt10 (lit ''9007199254740993'') = Rounded (lit ''9007199254740993'')"
    by code_simp+
  note a = parser_decision_policy [of out_uptodate "numberText env_ex" "lit ''0.5''"]
  note b = parser_decision_policy [of out_transfer "numberText env_ex" "lit ''1.2''" "lit ''1.5 MiB''"]
  note c = parser_decision_policy [of out_other "numberText env_ex" "lit ''0.1''"]
  note e = parser_decision_policy [of out_zero "numberText env_ex" "lit ''0.4''"]
  note f = parser_decision_policy [of out_big "numberText env_ex" "lit ''0.2''" "lit ''1 KiB''" 1203]
  have 1: "summary_of (numberText env_ex) out_uptodate (lit ''0.5'') = msg_uptodate @ lit ''0.5'' @ lit ''s)''"
    using a u by blast
  have z3: "noChanges out_zero" using e z by blast
  have 2: "summary_of (numberText env_ex) out_zero (lit ''0.4'') = msg_uptodate @ lit ''0.4'' @ lit ''s)''"
    using e z3 by blast
  have 3: "summary_of (numberText env_ex) out_transfer (lit ''1.2'')
       = lit ''3 files, '' @ lit ''1.5 MiB'' @ msg_elapsed @ lit ''1.2'' @ lit ''s''
         @ lit '', checks 10/12'' @ lit '')''"
    using b t(1,2) unfolding tf tc by blast
  have 4: "summary_of (numberText env_ex) out_big (lit ''0.2'')
       = lit ''1e+21 files, '' @ lit ''1 KiB'' @ msg_elapsed @ lit ''0.2'' @ lit ''s'' @ [] @ lit '')''"
    using f g(1,2) unfolding gf gc by blast
  have 5: "summary_of (numberText env_ex) out_other (lit ''0.1'') = msg_done @ lit ''0.1'' @ lit ''s)''"
    using c p by blast
  have 6: "digits_value (decimal 1203) = 1203" using f n(1) by blast
  show ?thesis using u z z3 t g p n 1 2 3 4 5 6 by simp
qed

end
